theory Spec2Isabelle
  imports Complex_Main "HOL-Library.AList"
begin

section \<open>Numbers, exceptions and arrays\<close>

text \<open>
  The program computes with numpy double-precision numbers. Rounding, overflow and the
  sign of zero are left out: a finite number is a real. The special values are kept,
  because the control flow of the program depends on them (\<open>np.isfinite\<close>, the
  not-a-number sentinel of the 1D fit, comparisons with not-a-number being false,
  division by zero giving a special value instead of raising).
\<close>

datatype npfloat = Fin real | PInf | NInf | NaN

fun isfinite :: "npfloat \<Rightarrow> bool" where
  "isfinite (Fin _) = True"
| "isfinite _ = False"

fun isnan :: "npfloat \<Rightarrow> bool" where
  "isnan NaN = True"
| "isnan _ = False"

fun fneg :: "npfloat \<Rightarrow> npfloat" where
  "fneg (Fin a) = Fin (- a)"
| "fneg PInf = NInf"
| "fneg NInf = PInf"
| "fneg NaN = NaN"

fun fadd :: "npfloat \<Rightarrow> npfloat \<Rightarrow> npfloat" where
  "fadd NaN _ = NaN"
| "fadd _ NaN = NaN"
| "fadd (Fin a) (Fin b) = Fin (a + b)"
| "fadd PInf NInf = NaN"
| "fadd NInf PInf = NaN"
| "fadd PInf _ = PInf"
| "fadd _ PInf = PInf"
| "fadd NInf _ = NInf"
| "fadd _ NInf = NInf"

definition fsub :: "npfloat \<Rightarrow> npfloat \<Rightarrow> npfloat" where
  "fsub a b = fadd a (fneg b)"

fun fmul :: "npfloat \<Rightarrow> npfloat \<Rightarrow> npfloat" where
  "fmul NaN _ = NaN"
| "fmul _ NaN = NaN"
| "fmul (Fin a) (Fin b) = Fin (a * b)"
| "fmul (Fin a) PInf = (if a = 0 then NaN else if 0 < a then PInf else NInf)"
| "fmul (Fin a) NInf = (if a = 0 then NaN else if 0 < a then NInf else PInf)"
| "fmul PInf (Fin b) = (if b = 0 then NaN else if 0 < b then PInf else NInf)"
| "fmul NInf (Fin b) = (if b = 0 then NaN else if 0 < b then NInf else PInf)"
| "fmul PInf PInf = PInf"
| "fmul NInf NInf = PInf"
| "fmul PInf NInf = NInf"
| "fmul NInf PInf = NInf"

text \<open>
  Division of numpy floats never raises: a zero denominator gives not-a-number
  (for \<open>0/0\<close>) or an infinity.
\<close>

fun fdiv :: "npfloat \<Rightarrow> npfloat \<Rightarrow> npfloat" where
  "fdiv NaN _ = NaN"
| "fdiv _ NaN = NaN"
| "fdiv (Fin a) (Fin b) =
     (if b \<noteq> 0 then Fin (a / b) else if a = 0 then NaN else if 0 < a then PInf else NInf)"
| "fdiv (Fin a) PInf = Fin 0"
| "fdiv (Fin a) NInf = Fin 0"
| "fdiv PInf (Fin b) = (if 0 \<le> b then PInf else NInf)"
| "fdiv NInf (Fin b) = (if 0 \<le> b then NInf else PInf)"
| "fdiv PInf PInf = NaN"
| "fdiv PInf NInf = NaN"
| "fdiv NInf PInf = NaN"
| "fdiv NInf NInf = NaN"

fun fsqrt :: "npfloat \<Rightarrow> npfloat" where
  "fsqrt (Fin a) = (if a < 0 then NaN else Fin (sqrt a))"
| "fsqrt PInf = PInf"
| "fsqrt NInf = NaN"
| "fsqrt NaN = NaN"

fun fabs :: "npfloat \<Rightarrow> npfloat" where
  "fabs (Fin a) = Fin \<bar>a\<bar>"
| "fabs PInf = PInf"
| "fabs NInf = PInf"
| "fabs NaN = NaN"

fun fexp :: "npfloat \<Rightarrow> npfloat" where
  "fexp (Fin a) = Fin (exp a)"
| "fexp PInf = PInf"
| "fexp NInf = Fin 0"
| "fexp NaN = NaN"

fun fpow :: "npfloat \<Rightarrow> nat \<Rightarrow> npfloat" where
  "fpow a 0 = Fin 1"
| "fpow a (Suc n) = fmul a (fpow a n)"

text \<open>\<open>a > b\<close> on floats: false as soon as one side is not a number.\<close>

fun fgt :: "npfloat \<Rightarrow> npfloat \<Rightarrow> bool" where
  "fgt NaN _ = False"
| "fgt _ NaN = False"
| "fgt (Fin a) (Fin b) = (b < a)"
| "fgt PInf PInf = False"
| "fgt PInf _ = True"
| "fgt _ PInf = False"
| "fgt NInf _ = False"
| "fgt _ NInf = True"

definition flt :: "npfloat \<Rightarrow> npfloat \<Rightarrow> bool" where
  "flt a b = fgt b a"

definition of_py_int :: "int \<Rightarrow> npfloat" where
  "of_py_int i = Fin (of_int i)"

text \<open>The exceptions of Python that the program can meet.\<close>

datatype exn =
  ValueError | RuntimeError | OptimizeWarning | TypeError | IndexError | KeyError
  | OverflowError

text \<open>
  Python 3's \<open>int(round(v))\<close> on a float: to the nearest integer, a tie to the even
  one; not-a-number raises ValueError and an infinity OverflowError.
\<close>

definition round_half_even :: "real \<Rightarrow> int" where
  "round_half_even v =
     (let f = \<lfloor>v\<rfloor>; d = v - of_int f
      in if d < 1 / 2 then f else if 1 / 2 < d then f + 1 else if even f then f else f + 1)"

fun int_round :: "npfloat \<Rightarrow> exn + int" where
  "int_round (Fin v) = Inr (round_half_even v)"
| "int_round NaN = Inl ValueError"
| "int_round PInf = Inl OverflowError"
| "int_round NInf = Inl OverflowError"

text \<open>
  A 2D array (a window of one slice) and the 3D stack, axis order (depth, row, column),
  each with its shape and its elements by index.
\<close>

record arr2 =
  nrows :: nat
  ncols :: nat
  px :: "nat \<Rightarrow> nat \<Rightarrow> npfloat"

record stack =
  shape :: "nat \<times> nat \<times> nat"
  vox :: "nat \<Rightarrow> nat \<Rightarrow> nat \<Rightarrow> npfloat"

text \<open>A Python \<open>slice(start, stop)\<close> object with integer bounds and step 1.\<close>

record pyslice =
  start :: int
  stop :: int

text \<open>
  How Python and numpy read a slice bound on an axis of length \<open>n\<close>: a negative
  bound counts from the end, and the result is clipped to \<open>0..n\<close>.
\<close>

definition adjust_index :: "int \<Rightarrow> nat \<Rightarrow> nat" where
  "adjust_index i n =
     (if i < 0 then (if i + int n < 0 then 0 else nat (i + int n))
      else if int n \<le> i then n else nat i)"

definition selected :: "pyslice \<Rightarrow> nat \<Rightarrow> nat list" where
  "selected sl n = [adjust_index (start sl) n ..< adjust_index (stop sl) n]"

section \<open>StackAnalyzer.sliceMaker\<close>

definition sliceMaker :: "stack \<Rightarrow> int \<Rightarrow> int \<Rightarrow> int \<Rightarrow> pyslice \<times> pyslice" where
  "sliceMaker st y0 x0 width =
     (case shape st of (zmax, ymax, xmax) \<Rightarrow>
        let half1 = width div 2;
            half2 = width - half1;
            ystart = y0 - half1;
            xstart = x0 - half1;
            yend = y0 + half2;
            xend = x0 + half2;
            ystart = (if ystart < 0 then 0 else ystart);
            xstart = (if xstart < 0 then 0 else xstart);
            yend = (if int ymax \<le> yend then int ymax - 1 else yend);
            xend = (if int xmax \<le> xend then int xmax - 1 else xend)
        in (\<lparr>start = ystart, stop = yend\<rparr>, \<lparr>start = xstart, stop = xend\<rparr>))"

section \<open>Gauss2D: the model functions\<close>

definition arr_shape :: "arr2 \<Rightarrow> nat \<times> nat" where
  "arr_shape a = (nrows a, ncols a)"

text \<open>\<open>a.ravel()\<close>: the elements row by row.\<close>

definition ravel :: "arr2 \<Rightarrow> npfloat list" where
  "ravel a = concat (map (\<lambda>r. map (px a r) [0..<ncols a]) [0..<nrows a])"

text \<open>\<open>np.meshgrid(np.arange(nc), np.arange(nr))\<close>: the column and the row of every pixel.\<close>

definition meshgrid :: "nat \<Rightarrow> nat \<Rightarrow> arr2 \<times> arr2" where
  "meshgrid nc nr =
     (\<lparr>nrows = nr, ncols = nc, px = (\<lambda>r c. Fin (real c))\<rparr>,
      \<lparr>nrows = nr, ncols = nc, px = (\<lambda>r c. Fin (real r))\<rparr>)"

text \<open>The value of the bivariate normal surface at one point (lines 93 to 95).\<close>

definition gauss2D_point ::
  "npfloat \<Rightarrow> npfloat \<Rightarrow> npfloat \<Rightarrow> npfloat \<Rightarrow> npfloat \<Rightarrow> npfloat \<Rightarrow> npfloat \<Rightarrow> npfloat
   \<Rightarrow> npfloat \<Rightarrow> npfloat" where
  "gauss2D_point x0 x1 amp mu0 mu1 sigma0 sigma1 rho offset =
     (let z = fadd
                (fsub (fpow (fdiv (fsub x0 mu0) sigma0) 2)
                      (fdiv (fmul (fmul (fmul (Fin 2) rho) (fsub x0 mu0)) (fsub x1 mu1))
                            (fmul sigma0 sigma1)))
                (fpow (fdiv (fsub x1 mu1) sigma1) 2)
      in fadd offset
           (fmul amp (fexp (fdiv (fneg z) (fmul (Fin 2) (fsub (Fin 1) (fpow rho 2)))))))"

definition gauss2D ::
  "arr2 \<times> arr2 \<Rightarrow> npfloat \<Rightarrow> npfloat \<Rightarrow> npfloat \<Rightarrow> npfloat \<Rightarrow> npfloat \<Rightarrow> npfloat \<Rightarrow> npfloat
   \<Rightarrow> exn + arr2" where
  "gauss2D xdata_tuple amp mu0 mu1 sigma0 sigma1 rho offset =
     (case xdata_tuple of (x0, x1) \<Rightarrow>
        if arr_shape x0 \<noteq> arr_shape x1 then Inl ValueError
        else Inr \<lparr>nrows = nrows x0, ncols = ncols x0,
                  px = (\<lambda>r c. gauss2D_point (px x0 r c) (px x1 r c)
                                 amp mu0 mu1 sigma0 sigma1 rho offset)\<rparr>)"

definition gauss2D_norot ::
  "arr2 \<times> arr2 \<Rightarrow> npfloat \<Rightarrow> npfloat \<Rightarrow> npfloat \<Rightarrow> npfloat \<Rightarrow> npfloat \<Rightarrow> npfloat
   \<Rightarrow> exn + arr2" where
  "gauss2D_norot xdata_tuple amp x0 y0 sigma_x sigma_y offset =
     gauss2D xdata_tuple amp x0 y0 sigma_x sigma_y (Fin 0) offset"

definition gauss2D_sym ::
  "arr2 \<times> arr2 \<Rightarrow> npfloat \<Rightarrow> npfloat \<Rightarrow> npfloat \<Rightarrow> npfloat \<Rightarrow> npfloat \<Rightarrow> exn + arr2" where
  "gauss2D_sym xdata_tuple amp x0 y0 sigma_x offset =
     gauss2D_norot xdata_tuple amp x0 y0 sigma_x sigma_x offset"

text \<open>\<open>model(xdata_tuple, *args)\<close>: the variant is chosen by the number of arguments.\<close>

definition model :: "arr2 \<times> arr2 \<Rightarrow> npfloat list \<Rightarrow> exn + arr2" where
  "model xdata_tuple args =
     (let num_args = length args
      in if num_args = 5 then
           gauss2D_sym xdata_tuple (args ! 0) (args ! 1) (args ! 2) (args ! 3) (args ! 4)
         else if num_args = 6 then
           gauss2D_norot xdata_tuple (args ! 0) (args ! 1) (args ! 2) (args ! 3) (args ! 4)
             (args ! 5)
         else if num_args = 7 then
           gauss2D xdata_tuple (args ! 0) (args ! 1) (args ! 2) (args ! 3) (args ! 4)
             (args ! 5) (args ! 6)
         else Inl ValueError)"

section \<open>The least-squares solver\<close>

text \<open>
  \<open>scipy.optimize.curve_fit\<close> is a library. Its iteration is a parameter of the
  model, of type \<open>lm_solver\<close>: given the model as a function of the parameters, the
  data and the initial guess, it raises an exception or returns the optimal parameters
  together with a flag that says whether it issued an OptimizeWarning (the covariance
  could not be estimated). Around the iteration \<open>curve_fit\<close> evaluates the model once
  at the initial guess, and an exception raised by the model leaves \<open>curve_fit\<close>
  unchanged.
\<close>

type_synonym lm_solver =
  "(npfloat list \<Rightarrow> exn + npfloat list) \<Rightarrow> npfloat list \<Rightarrow> npfloat list
   \<Rightarrow> exn + (npfloat list \<times> bool)"

definition curve_fit ::
  "lm_solver \<Rightarrow> ('x \<Rightarrow> npfloat list \<Rightarrow> exn + npfloat list) \<Rightarrow> 'x \<Rightarrow> npfloat list
   \<Rightarrow> npfloat list \<Rightarrow> exn + (npfloat list \<times> bool)" where
  "curve_fit lm f xdata ydata p0 =
     (case f xdata p0 of
        Inl e \<Rightarrow> Inl e
      | Inr _ \<Rightarrow> lm (f xdata) ydata p0)"

text \<open>
  Under \<open>warnings.simplefilter("error", OptimizeWarning)\<close> an OptimizeWarning is
  raised as an exception; without the filter it is only reported.
\<close>

definition warnings_as_errors :: "exn + (npfloat list \<times> bool) \<Rightarrow> exn + npfloat list" where
  "warnings_as_errors r =
     (case r of
        Inl e \<Rightarrow> Inl e
      | Inr (popt, warned) \<Rightarrow> if warned then Inl OptimizeWarning else Inr popt)"

definition warnings_ignored :: "exn + (npfloat list \<times> bool) \<Rightarrow> exn + npfloat list" where
  "warnings_ignored r = (case r of Inl e \<Rightarrow> Inl e | Inr (popt, warned) \<Rightarrow> Inr popt)"

section \<open>Gauss2D: the object, the moment estimate and the fit\<close>

record gauss2d =
  data :: arr2
  guess_params :: "npfloat list option"
  opt_params :: "npfloat list option"
  angle :: "npfloat option"
  error :: bool

definition Gauss2D :: "arr2 \<Rightarrow> gauss2d" where
  "Gauss2D d = \<lparr>data = d, guess_params = None, opt_params = None, angle = None, error = False\<rparr>"

text \<open>
  Modelled from the spec: the attribute \<open>error\<close> of a Gauss2D object, which
  StackAnalyzer.fitPeak reads, is not set anywhere in src/gauss2d.py. The spec's
  FitResult has \<open>succeeded = false\<close> exactly when validation replaced the parameters
  by the all-zero sentinel, so \<open>error\<close> is set when and only when that happens.
\<close>

definition set_error :: "bool \<Rightarrow> gauss2d \<Rightarrow> gauss2d" where
  "set_error failed self = self\<lparr>error := failed\<rparr>"

text \<open>
  Modelled from the spec: the attribute \<open>opt_params\<close> of a Gauss2D object, which
  PSFStackAnalyzer.fitPeaks reads (src/stackanalysis.py, line 291), is missing from
  src/gauss2d.py: the class there has only the field \<open>_opt_params\<close> (the field
  \<open>opt_params\<close> of the record above) and the method \<open>get_opt_params\<close>. The spec's
  FitResult carries the parameters of the fit, so the attribute is the stored result of
  the last fit; before any fit there is none, and \<open>np.isfinite\<close> of it raises TypeError.
\<close>

definition opt_params_attr :: "gauss2d \<Rightarrow> exn + npfloat list" where
  "opt_params_attr self =
     (case opt_params self of
        None \<Rightarrow> Inl TypeError
      | Some popt \<Rightarrow> Inr popt)"

text \<open>
  \<open>skimage.measure.moments(data, 2)\<close> (a library, in the version the program was
  written for): the raw moment \<open>M[p, q]\<close> is the sum of \<open>data[r, c] * r^q * c^p\<close>, so
  that \<open>M[1, 0]\<close> is the moment along the columns (x).
\<close>

definition fsum :: "npfloat list \<Rightarrow> npfloat" where
  "fsum xs = foldl fadd (Fin 0) xs"

definition moments :: "arr2 \<Rightarrow> nat \<Rightarrow> nat \<Rightarrow> npfloat" where
  "moments d p q =
     fsum (concat (map (\<lambda>r. map (\<lambda>c. fmul (fmul (px d r c) (fpow (Fin (real r)) q))
                                              (fpow (Fin (real c)) p))
                                  [0..<ncols d]) [0..<nrows d]))"

text \<open>
  \<open>data.max()\<close> and \<open>data.min()\<close>: not-a-number wins, and an empty array raises
  ValueError.
\<close>

definition fmax2 :: "npfloat \<Rightarrow> npfloat \<Rightarrow> npfloat" where
  "fmax2 a b = (if isnan a \<or> isnan b then NaN else if fgt b a then b else a)"

definition fmin2 :: "npfloat \<Rightarrow> npfloat \<Rightarrow> npfloat" where
  "fmin2 a b = (if isnan a \<or> isnan b then NaN else if fgt a b then b else a)"

definition np_max :: "npfloat list \<Rightarrow> exn + npfloat" where
  "np_max xs = (case xs of [] \<Rightarrow> Inl ValueError | x # ys \<Rightarrow> Inr (foldl fmax2 x ys))"

definition np_min :: "npfloat list \<Rightarrow> exn + npfloat" where
  "np_min xs = (case xs of [] \<Rightarrow> Inl ValueError | x # ys \<Rightarrow> Inr (foldl fmin2 x ys))"

definition estimate_params :: "gauss2d \<Rightarrow> exn + (npfloat list \<times> gauss2d)" where
  "estimate_params self =
     (let d = data self;
          M = moments d;
          xbar = fdiv (M 1 0) (M 0 0);
          ybar = fdiv (M 0 1) (M 0 0);
          xvar = fsub (fdiv (M 2 0) (M 0 0)) (fpow xbar 2);
          yvar = fsub (fdiv (M 0 2) (M 0 0)) (fpow ybar 2);
          covar = fsub (fdiv (M 1 1) (M 0 0)) (fmul xbar ybar)
      in case np_max (ravel d) of
           Inl e \<Rightarrow> Inl e
         | Inr dmax \<Rightarrow>
            (case np_min (ravel d) of
               Inl e \<Rightarrow> Inl e
             | Inr dmin \<Rightarrow>
                let params = [dmax, xbar, ybar, fsqrt (fabs xvar), fsqrt (fabs yvar),
                              fdiv covar (fsqrt (fabs (fmul xvar yvar))), dmin]
                in Inr (params, self\<lparr>guess_params := Some params\<rparr>)))"

text \<open>\<open>str.lower()\<close> on ASCII letters.\<close>

definition lower_char :: "char \<Rightarrow> char" where
  "lower_char c =
     (let n = (of_char c :: nat) in if 65 \<le> n \<and> n \<le> 90 then char_of (n + 32) else c)"

definition lower :: "string \<Rightarrow> string" where
  "lower s = map lower_char s"

text \<open>\<open>np.delete(a, idx)\<close> and \<open>np.zeros_like(a)\<close> on a vector.\<close>

definition np_delete :: "'a list \<Rightarrow> nat list \<Rightarrow> 'a list" where
  "np_delete xs idx = map (\<lambda>i. xs ! i) (filter (\<lambda>i. i \<notin> set idx) [0..<length xs])"

definition zeros_like :: "npfloat list \<Rightarrow> npfloat list" where
  "zeros_like xs = replicate (length xs) (Fin 0)"

text \<open>Lines 167 to 177 of optimize_params_ls: the guess the solver starts from.\<close>

definition start_params ::
  "gauss2d \<Rightarrow> npfloat list option \<Rightarrow> string \<Rightarrow> exn + (npfloat list \<times> gauss2d)" where
  "start_params self guess_params_arg modeltype =
     (case guess_params_arg of
        None \<Rightarrow>
          (case estimate_params self of
             Inl e \<Rightarrow> Inl e
           | Inr (gp, self1) \<Rightarrow>
               Inr (if lower modeltype = ''sym'' then np_delete gp [5]
                    else if lower modeltype = ''norot'' then np_delete gp [4, 5]
                    else gp, self1))
      | Some gp \<Rightarrow> Inr (gp, self\<lparr>guess_params := Some gp\<rparr>))"

text \<open>Lines 186 to 198: the call of the solver on the window, warnings raised as errors.\<close>

definition model_ravel :: "arr2 \<times> arr2 \<Rightarrow> npfloat list \<Rightarrow> exn + npfloat list" where
  "model_ravel xdata_tuple args =
     (case model xdata_tuple args of Inl e \<Rightarrow> Inl e | Inr g \<Rightarrow> Inr (ravel g))"

definition fit_window :: "lm_solver \<Rightarrow> arr2 \<Rightarrow> npfloat list \<Rightarrow> exn + npfloat list" where
  "fit_window lm d gp =
     warnings_as_errors
       (curve_fit lm model_ravel (meshgrid (ncols d) (nrows d)) (ravel d) gp)"

text \<open>
  Lines 199 to 208: what becomes of the solver's result. The flag says whether the
  result was replaced by the all-zero sentinel. \<open>max_s\<close> is \<open>max(data.shape)\<close>.
\<close>

definition max_s :: "arr2 \<Rightarrow> npfloat" where
  "max_s d = Fin (real (max (nrows d) (ncols d)))"

definition validate ::
  "arr2 \<Rightarrow> npfloat list \<Rightarrow> exn + npfloat list \<Rightarrow> exn + (npfloat list \<times> bool)" where
  "validate d gp r =
     (case r of
        Inl e \<Rightarrow>
          if e = OptimizeWarning \<or> e = ValueError \<or> e = RuntimeError
          then Inr (zeros_like gp, True) else Inl e
      | Inr popt \<Rightarrow>
          if length popt < 6 then
            (if length popt \<le> 3 then Inl IndexError
             else if fgt (popt ! 3) (max_s d) then Inr (zeros_like gp, True)
             else Inr (popt, False))
          else
            (if fgt (popt ! 3) (max_s d) \<or> fgt (popt ! 4) (max_s d)
             then Inr (zeros_like gp, True)
             else Inr (popt, False)))"

definition optimize_params_ls ::
  "lm_solver \<Rightarrow> gauss2d \<Rightarrow> npfloat list option \<Rightarrow> string \<Rightarrow> exn + (npfloat list \<times> gauss2d)" where
  "optimize_params_ls lm self guess_params_arg modeltype =
     (case start_params self guess_params_arg modeltype of
        Inl e \<Rightarrow> Inl e
      | Inr (gp, self1) \<Rightarrow>
          (case validate (data self1) gp (fit_window lm (data self1) gp) of
             Inl e \<Rightarrow> Inl e
           | Inr (popt, failed) \<Rightarrow>
               Inr (popt, set_error failed (self1\<lparr>opt_params := Some popt\<rparr>))))"

section \<open>Example inputs\<close>

text \<open>A 2 by 2 window whose whole intensity is in one pixel: both variances are zero.\<close>

definition single_pixel_window :: arr2 where
  "single_pixel_window =
     \<lparr>nrows = 2, ncols = 2, px = (\<lambda>r c. if r = 1 \<and> c = 1 then Fin 1 else Fin 0)\<rparr>"

section \<open>The moments the estimate is compared with\<close>

text \<open>
  The quantities of the moment estimate over the reals, for a window of \<open>nr\<close> rows and
  \<open>nc\<close> columns whose pixel \<open>(r, c)\<close> has the finite value \<open>f r c\<close>: the raw moment,
  the centroid (first-order moment ratios) and the central moments about the centroid,
  normalised by the total intensity. The first exponent belongs to the column.
\<close>

definition raw_moment :: "(nat \<Rightarrow> nat \<Rightarrow> real) \<Rightarrow> nat \<Rightarrow> nat \<Rightarrow> nat \<Rightarrow> nat \<Rightarrow> real" where
  "raw_moment f nr nc p q = (\<Sum>r<nr. \<Sum>c<nc. f r c * real r ^ q * real c ^ p)"

definition centroid0 :: "(nat \<Rightarrow> nat \<Rightarrow> real) \<Rightarrow> nat \<Rightarrow> nat \<Rightarrow> real" where
  "centroid0 f nr nc = raw_moment f nr nc 1 0 / raw_moment f nr nc 0 0"

definition centroid1 :: "(nat \<Rightarrow> nat \<Rightarrow> real) \<Rightarrow> nat \<Rightarrow> nat \<Rightarrow> real" where
  "centroid1 f nr nc = raw_moment f nr nc 0 1 / raw_moment f nr nc 0 0"

definition central_moment :: "(nat \<Rightarrow> nat \<Rightarrow> real) \<Rightarrow> nat \<Rightarrow> nat \<Rightarrow> nat \<Rightarrow> nat \<Rightarrow> real" where
  "central_moment f nr nc p q =
     (\<Sum>r<nr. \<Sum>c<nc. f r c * (real r - centroid1 f nr nc) ^ q * (real c - centroid0 f nr nc) ^ p)
       / raw_moment f nr nc 0 0"

definition pixels :: "(nat \<Rightarrow> nat \<Rightarrow> real) \<Rightarrow> nat \<Rightarrow> nat \<Rightarrow> real set" where
  "pixels f nr nc = (\<lambda>(r, c). f r c) ` ({..<nr} \<times> {..<nc})"

text \<open>A 2 by 2 window with unit intensity on the diagonal.\<close>

definition diagonal_window :: arr2 where
  "diagonal_window = \<lparr>nrows = 2, ncols = 2, px = (\<lambda>r c. if r = c then Fin 1 else Fin 0)\<rparr>"

section \<open>The 1D fit along the z-profile: gauss_fit\<close>

text \<open>
  PSFStackAnalyzer.gauss_fit in src/stackanalysis.py and gauss_fit in src/utils.py are
  the same function, with the same helpers. Arithmetic between two 1D arrays follows
  numpy's broadcasting: equal lengths, or one of them of length one; anything else raises
  ValueError. A boolean mask of another length than the array it indexes raises
  IndexError.
\<close>

definition broadcast ::
  "(npfloat \<Rightarrow> npfloat \<Rightarrow> npfloat) \<Rightarrow> npfloat list \<Rightarrow> npfloat list \<Rightarrow> exn + npfloat list" where
  "broadcast f xs ys =
     (if length xs = length ys then Inr (map2 f xs ys)
      else if length xs = 1 then Inr (map (f (hd xs)) ys)
      else if length ys = 1 then Inr (map (\<lambda>x. f x (hd ys)) xs)
      else Inl ValueError)"

definition mask_index :: "'a list \<Rightarrow> bool list \<Rightarrow> exn + 'a list" where
  "mask_index xs keep =
     (if length keep = length xs then Inr (map fst (filter snd (zip xs keep)))
      else Inl IndexError)"

text \<open>\<open>np.insert(a, i, v)\<close> on a vector.\<close>

definition np_insert :: "'a list \<Rightarrow> nat \<Rightarrow> 'a \<Rightarrow> exn + 'a list" where
  "np_insert xs i v = (if i \<le> length xs then Inr (take i xs @ v # drop i xs) else Inl IndexError)"

definition nmoment :: "npfloat list \<Rightarrow> npfloat list \<Rightarrow> npfloat \<Rightarrow> nat \<Rightarrow> exn + npfloat" where
  "nmoment x counts c n =
     (case broadcast fmul (map (\<lambda>xi. fpow (fsub xi c) n) x) counts of
        Inl e \<Rightarrow> Inl e
      | Inr prods \<Rightarrow> Inr (fdiv (fsum prods) (fsum counts)))"

text \<open>
  The model functions handed to the solver, as functions of the parameter vector: a call
  with another number of parameters than the function takes raises TypeError.
\<close>

definition gauss_no_offset :: "npfloat list \<Rightarrow> npfloat list \<Rightarrow> exn + npfloat list" where
  "gauss_no_offset x p =
     (if length p = 3 then
        Inr (map (\<lambda>xi. fmul (p ! 0)
                         (fexp (fdiv (fneg (fpow (fsub xi (p ! 1)) 2))
                                     (fmul (Fin 2) (fpow (p ! 2) 2))))) x)
      else Inl TypeError)"

definition gauss :: "npfloat list \<Rightarrow> npfloat list \<Rightarrow> exn + npfloat list" where
  "gauss x p =
     (if length p = 4 then
        Inr (map (\<lambda>xi. fadd (fmul (p ! 0)
                               (fexp (fdiv (fneg (fpow (fsub xi (p ! 1)) 2))
                                           (fmul (Fin 2) (fpow (p ! 2) 2)))))
                         (p ! 3)) x)
      else Inl TypeError)"

text \<open>The initial guess \<open>p0\<close> of gauss_fit: amplitude, centre, width, offset.\<close>

definition gauss_fit_p0 :: "npfloat list \<Rightarrow> npfloat list \<Rightarrow> npfloat option \<Rightarrow> exn + npfloat list" where
  "gauss_fit_p0 xdata ydata guess_z =
     (case np_min ydata of
        Inl e \<Rightarrow> Inl e
      | Inr offset \<Rightarrow>
         let ydata_corr = map (\<lambda>y. fsub y offset) ydata
         in case (case guess_z of
                    None \<Rightarrow> nmoment xdata ydata_corr (Fin 0) 1
                  | Some g \<Rightarrow> Inr g) of
              Inl e \<Rightarrow> Inl e
            | Inr x0 \<Rightarrow>
               (case nmoment xdata ydata_corr x0 2 of
                  Inl e \<Rightarrow> Inl e
                | Inr m2 \<Rightarrow>
                   (case np_max ydata_corr of
                      Inl e \<Rightarrow> Inl e
                    | Inr amp \<Rightarrow> Inr [amp, x0, fsqrt m2, offset])))"

text \<open>The optional trim of the data to \<open>trim\<close> widths around the estimated centre.\<close>

definition gauss_fit_trim ::
  "npfloat list \<Rightarrow> npfloat list \<Rightarrow> npfloat option \<Rightarrow> npfloat list
   \<Rightarrow> exn + (npfloat list \<times> npfloat list)" where
  "gauss_fit_trim xdata ydata trim p0 =
     (case trim of
        None \<Rightarrow> Inr (xdata, ydata)
      | Some t \<Rightarrow>
         let args = map (\<lambda>xi. flt (fabs (fsub xi (p0 ! 1))) (fmul t (p0 ! 2))) xdata
         in case mask_index xdata args of
              Inl e \<Rightarrow> Inl e
            | Inr xd \<Rightarrow>
               (case mask_index ydata args of
                  Inl e \<Rightarrow> Inl e
                | Inr yd \<Rightarrow> Inr (xd, yd)))"

text \<open>
  The body of the \<open>try\<close>: the call of the solver, warnings only reported. The offset
  put back after a fit without offset is the last entry of \<open>p0\<close>.
\<close>

definition gauss_fit_solve ::
  "lm_solver \<Rightarrow> bool \<Rightarrow> npfloat list \<Rightarrow> npfloat list \<Rightarrow> npfloat list \<Rightarrow> exn + npfloat list" where
  "gauss_fit_solve lm withoffset xdata ydata p0 =
     (if withoffset then warnings_ignored (curve_fit lm gauss xdata ydata p0)
      else
        (case warnings_ignored (curve_fit lm gauss_no_offset xdata ydata (take 3 p0)) of
           Inl e \<Rightarrow> Inl e
         | Inr popt \<Rightarrow> np_insert popt 3 (p0 ! 3)))"

definition gauss_fit ::
  "lm_solver \<Rightarrow> npfloat list \<Rightarrow> npfloat list \<Rightarrow> bool \<Rightarrow> npfloat option \<Rightarrow> npfloat option
   \<Rightarrow> exn + npfloat list" where
  "gauss_fit lm xdata ydata withoffset trim guess_z =
     (case gauss_fit_p0 xdata ydata guess_z of
        Inl e \<Rightarrow> Inl e
      | Inr p0 \<Rightarrow>
         (case gauss_fit_trim xdata ydata trim p0 of
            Inl e \<Rightarrow> Inl e
          | Inr (xd, yd) \<Rightarrow>
             (case gauss_fit_solve lm withoffset xd yd p0 of
                Inl e \<Rightarrow>
                  if e = RuntimeError then Inr (map (\<lambda>v. fmul v NaN) p0) else Inl e
              | Inr popt \<Rightarrow> Inr popt)))"

section \<open>Parameter dictionaries\<close>

text \<open>
  A Python dict from names to numbers, as an association list with distinct keys, in the
  order of insertion. A missing key raises KeyError.
\<close>

type_synonym pdict = "(string \<times> npfloat) list"

definition dict_get :: "pdict \<Rightarrow> string \<Rightarrow> exn + npfloat" where
  "dict_get d k = (case map_of d k of None \<Rightarrow> Inl KeyError | Some v \<Rightarrow> Inr v)"

text \<open>\<open>d[k] += v\<close> and \<open>d[k] -= v\<close>.\<close>

definition dict_add :: "pdict \<Rightarrow> string \<Rightarrow> npfloat \<Rightarrow> exn + pdict" where
  "dict_add d k v =
     (case dict_get d k of Inl e \<Rightarrow> Inl e | Inr old \<Rightarrow> Inr (AList.update k (fadd old v) d))"

definition dict_sub :: "pdict \<Rightarrow> string \<Rightarrow> npfloat \<Rightarrow> exn + pdict" where
  "dict_sub d k v =
     (case dict_get d k of Inl e \<Rightarrow> Inl e | Inr old \<Rightarrow> Inr (AList.update k (fsub old v) d))"

definition dict_pop :: "pdict \<Rightarrow> string \<Rightarrow> exn + pdict" where
  "dict_pop d k = (case map_of d k of None \<Rightarrow> Inl KeyError | Some v \<Rightarrow> Inr (AList.delete k d))"

text \<open>
  Modelled from the spec: the names of the entries of a parameter vector. StackAnalyzer
  works on dicts of named parameters, which it gets from the method \<open>opt_params_dict\<close>
  of Gauss2D; that method is not in src/gauss2d.py. The spec's ModelParameters is the
  ordered tuple (amplitude, center0, center1, width0, width1, correlation?, offset), with
  five entries for the symmetric variant (one width, no correlation), six for the
  axis-aligned one (no correlation) and seven for the full one; the names are those
  src/stackanalysis.py reads and the docstring of estimate_params lists.
\<close>

definition param_names :: "nat \<Rightarrow> string list" where
  "param_names n =
     (if n = 5 then [''amp'', ''x0'', ''y0'', ''sigma_x'', ''offset'']
      else if n = 6 then [''amp'', ''x0'', ''y0'', ''sigma_x'', ''sigma_y'', ''offset'']
      else [''amp'', ''x0'', ''y0'', ''sigma_x'', ''sigma_y'', ''rho'', ''offset''])"

text \<open>
  Modelled from the spec: \<open>opt_params_dict\<close>, the optimal parameters by name (see
  \<open>param_names\<close>); before any fit there are none to return.
\<close>

definition opt_params_dict :: "gauss2d \<Rightarrow> exn + pdict" where
  "opt_params_dict self =
     (case opt_params self of
        None \<Rightarrow> Inl TypeError
      | Some popt \<Rightarrow> Inr (zip (param_names (length popt)) popt))"

text \<open>
  Modelled from the spec: how a dict of named parameters becomes the guess vector.
  fitPeak hands the carried dict to optimize_params_ls, which in src/gauss2d.py takes a
  vector; the conversion is not in src. The vector holds the values of the model
  parameters present in the dict, in the order of the spec's tuple; an entry that is not
  a model parameter (the slice number) is not part of it.
\<close>

definition dict_to_params :: "pdict \<Rightarrow> npfloat list" where
  "dict_to_params d =
     concat (map (\<lambda>k. case map_of d k of None \<Rightarrow> [] | Some v \<Rightarrow> [v]) (param_names 7))"

section \<open>StackAnalyzer.fitPeak\<close>

text \<open>\<open>a[i]\<close> with an integer on an axis of length \<open>n\<close>.\<close>

definition index_axis :: "int \<Rightarrow> nat \<Rightarrow> exn + nat" where
  "index_axis i n =
     (if 0 \<le> i \<and> i < int n then Inr (nat i)
      else if - int n \<le> i \<and> i < 0 then Inr (nat (i + int n))
      else Inl IndexError)"

text \<open>
  \<open>stack[z, yslice, xslice]\<close> for a slice number \<open>z\<close> inside the stack, and
  \<open>stack[s, yslice, xslice]\<close> for any integer \<open>s\<close>.
\<close>

definition window_at :: "stack \<Rightarrow> nat \<Rightarrow> pyslice \<times> pyslice \<Rightarrow> arr2" where
  "window_at st z myslice =
     (case shape st of (zmax, ymax, xmax) \<Rightarrow>
        let ylo = adjust_index (start (fst myslice)) ymax;
            yhi = adjust_index (stop (fst myslice)) ymax;
            xlo = adjust_index (start (snd myslice)) xmax;
            xhi = adjust_index (stop (snd myslice)) xmax
        in \<lparr>nrows = yhi - ylo, ncols = xhi - xlo,
              px = (\<lambda>r c. vox st z (ylo + r) (xlo + c))\<rparr>)"

definition window :: "stack \<Rightarrow> int \<Rightarrow> pyslice \<times> pyslice \<Rightarrow> exn + arr2" where
  "window st s myslice =
     (case shape st of (zmax, ymax, xmax) \<Rightarrow>
        (case index_axis s zmax of
           Inl e \<Rightarrow> Inl e
         | Inr z \<Rightarrow> Inr (window_at st z myslice)))"

text \<open>
  The state of the loop of fitPeak: the list to return, the carried parameters
  \<open>popt_d\<close> and the rounded centre \<open>y0\<close>, \<open>x0\<close> of the next window.
\<close>

record track_state =
  ts_toreturn :: "pdict list"
  ts_popt_d :: pdict
  ts_y0 :: int
  ts_x0 :: int

text \<open>
  One pass of the loop body (lines 127 to 168), in a call of fitPeak with no keyword
  beyond its three parameters: the first attempt starts from the carried parameters with
  the default model type, the second from the moment estimate with the model type of the
  starting fit.
\<close>

definition fitPeak_step ::
  "lm_solver \<Rightarrow> stack \<Rightarrow> int \<Rightarrow> string \<Rightarrow> track_state \<Rightarrow> int \<Rightarrow> exn + track_state" where
  "fitPeak_step lm st width modeltype state s =
     (let myslice = sliceMaker st (ts_y0 state) (ts_x0 state) width;
          ystart = start (fst myslice);
          xstart = start (snd myslice)
      in case window st s myslice of
           Inl e \<Rightarrow> Inl e
         | Inr w \<Rightarrow>
      (case dict_sub (ts_popt_d state) ''x0'' (of_py_int xstart) of
           Inl e \<Rightarrow> Inl e
         | Inr d1 \<Rightarrow>
      (case dict_sub d1 ''y0'' (of_py_int ystart) of
           Inl e \<Rightarrow> Inl e
         | Inr popt_d \<Rightarrow>
      (case optimize_params_ls lm (Gauss2D w) (Some (dict_to_params popt_d)) ''full'' of
           Inl e \<Rightarrow> Inl e
         | Inr (p1, fit1) \<Rightarrow>
      (case (if error fit1 then optimize_params_ls lm fit1 None modeltype
             else Inr (p1, fit1)) of
           Inl e \<Rightarrow> Inl e
         | Inr (p2, fit) \<Rightarrow>
      if \<not> error fit then
        (case opt_params_dict fit of
           Inl e \<Rightarrow> Inl e
         | Inr d2 \<Rightarrow>
        (case dict_add d2 ''x0'' (of_py_int xstart) of
           Inl e \<Rightarrow> Inl e
         | Inr d3 \<Rightarrow>
        (case dict_add d3 ''y0'' (of_py_int ystart) of
           Inl e \<Rightarrow> Inl e
         | Inr d4 \<Rightarrow>
        let new_d = AList.update ''slice'' (of_py_int s) d4
        in (case dict_get new_d ''y0'' of
              Inl e \<Rightarrow> Inl e
            | Inr vy \<Rightarrow>
           (case int_round vy of
              Inl e \<Rightarrow> Inl e
            | Inr y0 \<Rightarrow>
           (case dict_get new_d ''x0'' of
              Inl e \<Rightarrow> Inl e
            | Inr vx \<Rightarrow>
           (case int_round vx of
              Inl e \<Rightarrow> Inl e
            | Inr x0 \<Rightarrow>
                Inr \<lparr>ts_toreturn = ts_toreturn state @ [new_d], ts_popt_d = new_d,
                     ts_y0 = y0, ts_x0 = x0\<rparr>)))))))
      else
        (case opt_params_dict fit of
           Inl e \<Rightarrow> Inl e
         | Inr bad_fit \<Rightarrow>
             Inr \<lparr>ts_toreturn =
                    ts_toreturn state @ [AList.update ''slice'' (of_py_int s) bad_fit],
                  ts_popt_d = popt_d, ts_y0 = ts_y0 state, ts_x0 = ts_x0 state\<rparr>))))))"

fun fitPeak_loop ::
  "lm_solver \<Rightarrow> stack \<Rightarrow> int \<Rightarrow> string \<Rightarrow> int list \<Rightarrow> track_state \<Rightarrow> exn + track_state" where
  "fitPeak_loop lm st width modeltype [] state = Inr state"
| "fitPeak_loop lm st width modeltype (s # slices) state =
     (case fitPeak_step lm st width modeltype state s of
        Inl e \<Rightarrow> Inl e
      | Inr state' \<Rightarrow> fitPeak_loop lm st width modeltype slices state')"

text \<open>Lines 113 to 123: the state before the first slice, and the variant of the retry.\<close>

definition modeltype_of :: "pdict \<Rightarrow> string" where
  "modeltype_of popt_d =
     (if length popt_d = 6 then ''norot''
      else if length popt_d = 5 then ''sym''
      else ''full'')"

definition fitPeak_init :: "pdict \<Rightarrow> exn + track_state" where
  "fitPeak_init startingfit =
     (case dict_get startingfit ''y0'' of
        Inl e \<Rightarrow> Inl e
      | Inr vy \<Rightarrow>
     (case int_round vy of
        Inl e \<Rightarrow> Inl e
      | Inr y0 \<Rightarrow>
     (case dict_get startingfit ''x0'' of
        Inl e \<Rightarrow> Inl e
      | Inr vx \<Rightarrow>
     (case int_round vx of
        Inl e \<Rightarrow> Inl e
      | Inr x0 \<Rightarrow>
          Inr \<lparr>ts_toreturn = [], ts_popt_d = startingfit, ts_y0 = y0, ts_x0 = x0\<rparr>))))"

definition fitPeak ::
  "lm_solver \<Rightarrow> stack \<Rightarrow> int list \<Rightarrow> int \<Rightarrow> pdict \<Rightarrow> exn + pdict list" where
  "fitPeak lm st slices width startingfit =
     (case fitPeak_init startingfit of
        Inl e \<Rightarrow> Inl e
      | Inr state0 \<Rightarrow>
         (case fitPeak_loop lm st width (modeltype_of startingfit) slices state0 of
            Inl e \<Rightarrow> Inl e
          | Inr state \<Rightarrow> Inr (ts_toreturn state)))"

text \<open>
  Modelled from the spec: fitPeak called with the keyword \<open>quiet = True\<close>, as
  PSFStackAnalyzer.fitPeaks calls it (src/stackanalysis.py, lines 306 and 307). fitPeak
  hands its keywords on to optimize_params_ls, and the optimize_params_ls of
  src/gauss2d.py (line 149) has no parameter \<open>quiet\<close>: the version of Gauss2D that takes
  it is missing from src. The spec's PeakFitter fits a window from a guess and a model
  variant and has no other input, so the keyword changes nothing of a fit: the call is
  the call without it.
\<close>

definition fitPeak_quiet ::
  "lm_solver \<Rightarrow> stack \<Rightarrow> int list \<Rightarrow> int \<Rightarrow> pdict \<Rightarrow> exn + pdict list" where
  "fitPeak_quiet lm st slices width startingfit = fitPeak lm st slices width startingfit"

text \<open>
  A stack of three 20 by 20 slices of constant intensity, a solver that never converges,
  and two starting fits centred at (10, 10): a symmetric one (five parameters) and a full
  one (seven parameters).
\<close>

definition flat_stack :: stack where
  "flat_stack = \<lparr>shape = (3, 20, 20), vox = (\<lambda>z y x. Fin 1)\<rparr>"

definition failing_lm :: lm_solver where
  "failing_lm = (\<lambda>f ydata p0. Inl RuntimeError)"

definition sym_start :: pdict where
  "sym_start =
     [(''amp'', Fin 1), (''x0'', Fin 10), (''y0'', Fin 10), (''sigma_x'', Fin 2),
      (''offset'', Fin 0)]"

definition full_start :: pdict where
  "full_start =
     [(''amp'', Fin 1), (''x0'', Fin 10), (''y0'', Fin 10), (''sigma_x'', Fin 2),
      (''sigma_y'', Fin 2), (''rho'', Fin 0), (''offset'', Fin 0)]"

section \<open>Tables of fits\<close>

text \<open>
  What the program uses of a pandas DataFrame: the names of the columns and the rows,
  each with its index value and its entries by column; an entry a row does not have is
  not-a-number. Selecting a column that does not exist raises KeyError.
\<close>

record dataframe =
  df_columns :: "string list"
  df_rows :: "(npfloat \<times> pdict) list"

definition cell :: "pdict \<Rightarrow> string \<Rightarrow> npfloat" where
  "cell row k = (case map_of row k of None \<Rightarrow> NaN | Some v \<Rightarrow> v)"

definition fill_row :: "string list \<Rightarrow> pdict \<Rightarrow> pdict" where
  "fill_row cols row = map (\<lambda>k. (k, cell row k)) cols"

text \<open>\<open>pd.DataFrame(dicts)\<close>: the columns are the keys of all dicts, the index counts the rows.\<close>

definition DataFrame :: "pdict list \<Rightarrow> dataframe" where
  "DataFrame dicts =
     (let cols = remdups (concat (map (map fst) dicts))
      in \<lparr>df_columns = cols,
           df_rows = map (\<lambda>(i, row). (Fin (real i), fill_row cols row)) (enumerate 0 dicts)\<rparr>)"

text \<open>\<open>df[cols] = abs(df[cols])\<close>.\<close>

definition df_abs :: "dataframe \<Rightarrow> string list \<Rightarrow> exn + dataframe" where
  "df_abs df cols =
     (if list_all (\<lambda>k. k \<in> set (df_columns df)) cols then
        Inr (df\<lparr>df_rows :=
               map (\<lambda>(i, row). (i, map (\<lambda>(k, v). (k, if k \<in> set cols then fabs v else v)) row))
                   (df_rows df)\<rparr>)
      else Inl KeyError)"

text \<open>\<open>df.set_index(k)\<close> and \<open>df.sort()\<close>, which sorts the rows by their index.\<close>

definition df_set_index :: "dataframe \<Rightarrow> string \<Rightarrow> exn + dataframe" where
  "df_set_index df k =
     (if k \<in> set (df_columns df) then
        Inr \<lparr>df_columns = removeAll k (df_columns df),
             df_rows = map (\<lambda>(i, row). (cell row k, AList.delete k row)) (df_rows df)\<rparr>
      else Inl KeyError)"

fun index_key :: "npfloat \<Rightarrow> real" where
  "index_key (Fin a) = a"
| "index_key _ = 0"

definition df_sort :: "dataframe \<Rightarrow> dataframe" where
  "df_sort df = df\<lparr>df_rows := sort_key (\<lambda>(i, row). index_key i) (df_rows df)\<rparr>"

text \<open>
  \<open>df.dropna()\<close> drops the rows with a not-a-number entry; \<open>df.loc[lo:hi]\<close> keeps the
  rows whose index lies between the two labels, both included, a missing label being no
  bound.
\<close>

definition df_dropna :: "dataframe \<Rightarrow> dataframe" where
  "df_dropna df = df\<lparr>df_rows := filter (\<lambda>(i, row). list_all (\<lambda>(k, v). \<not> isnan v) row) (df_rows df)\<rparr>"

definition df_loc :: "dataframe \<Rightarrow> int option \<times> int option \<Rightarrow> dataframe" where
  "df_loc df subrange =
     df\<lparr>df_rows :=
          filter (\<lambda>(i, row).
                    (case fst subrange of None \<Rightarrow> True | Some lo \<Rightarrow> real_of_int lo \<le> index_key i)
                  \<and> (case snd subrange of None \<Rightarrow> True | Some hi \<Rightarrow> index_key i \<le> real_of_int hi))
                 (df_rows df)\<rparr>"

definition df_column :: "dataframe \<Rightarrow> string \<Rightarrow> exn + npfloat list" where
  "df_column df k =
     (if k \<in> set (df_columns df) then Inr (map (\<lambda>(i, row). cell row k) (df_rows df))
      else Inl KeyError)"

section \<open>PSFStackAnalyzer.fitPeaks\<close>

text \<open>A candidate peak of the detector: row, column, width and amplitude.\<close>

record blob =
  blob_y :: int
  blob_x :: int
  blob_w :: npfloat
  blob_amp :: npfloat

text \<open>
  \<open>a.argmax()\<close>: the first index of the maximum, not-a-number counting as the maximum;
  an empty array raises ValueError.
\<close>

fun argmax_from :: "nat \<Rightarrow> npfloat \<Rightarrow> nat \<Rightarrow> npfloat list \<Rightarrow> nat" where
  "argmax_from best_i best i [] = best_i"
| "argmax_from best_i best i (x # xs) =
     (if \<not> isnan best \<and> (isnan x \<or> fgt x best) then argmax_from i x (Suc i) xs
      else argmax_from best_i best (Suc i) xs)"

definition np_argmax :: "npfloat list \<Rightarrow> exn + nat" where
  "np_argmax xs = (case xs of [] \<Rightarrow> Inl ValueError | x # ys \<Rightarrow> Inr (argmax_from 0 x 1 ys))"

text \<open>
  The body of the loop over the blobs (lines 260 to 318): the table of the fits of one
  peak, or nothing when the seed fit is not finite. The keywords of fitPeaks go to the
  seed fit; they are the two parameters of optimize_params_ls. The result of the seed fit
  is read through \<open>opt_params_attr\<close>, and the two tracks are the calls
  \<open>fitPeak_quiet\<close>; both stand for code that is missing from src (see there).
\<close>

definition fitPeaks_blob ::
  "lm_solver \<Rightarrow> stack \<Rightarrow> int \<Rightarrow> npfloat list option \<Rightarrow> string \<Rightarrow> blob
   \<Rightarrow> exn + dataframe option" where
  "fitPeaks_blob lm st fitwidth kw_guess kw_modeltype b =
     (case shape st of (zmax, ymax, xmax) \<Rightarrow>
      let myslice = sliceMaker st (blob_y b) (blob_x b) fitwidth;
          ystart = start (fst myslice);
          xstart = start (snd myslice);
          slice_sums = map (\<lambda>z. fsum (ravel (window_at st z myslice))) [0..<zmax]
      in case np_argmax slice_sums of
           Inl e \<Rightarrow> Inl e
         | Inr my_max \<Rightarrow>
      (case optimize_params_ls lm (Gauss2D (window_at st my_max myslice)) kw_guess kw_modeltype of
           Inl e \<Rightarrow> Inl e
         | Inr (popt, max_z) \<Rightarrow>
      (case opt_params_attr max_z of
           Inl e \<Rightarrow> Inl e
         | Inr found \<Rightarrow>
      if list_all isfinite found then
        (case opt_params_dict max_z of
           Inl e \<Rightarrow> Inl e
         | Inr d0 \<Rightarrow>
        (case dict_add (AList.update ''slice'' (of_py_int (int my_max)) d0) ''x0''
                (of_py_int xstart) of
           Inl e \<Rightarrow> Inl e
         | Inr d1 \<Rightarrow>
        (case dict_add d1 ''y0'' (of_py_int ystart) of
           Inl e \<Rightarrow> Inl e
         | Inr seed \<Rightarrow>
        (case dict_pop seed ''slice'' of
           Inl e \<Rightarrow> Inl e
         | Inr startingfit \<Rightarrow>
        (case fitPeak_quiet lm st (map int [my_max + 1..<zmax]) fitwidth startingfit of
           Inl e \<Rightarrow> Inl e
         | Inr forward \<Rightarrow>
        (case fitPeak_quiet lm st (rev (map int [0..<my_max])) fitwidth startingfit of
           Inl e \<Rightarrow> Inl e
         | Inr backward \<Rightarrow>
        (case df_abs (DataFrame (seed # forward @ backward)) [''sigma_x'', ''sigma_y''] of
           Inl e \<Rightarrow> Inl e
         | Inr peakfits_df \<Rightarrow>
        (case df_set_index peakfits_df ''slice'' of
           Inl e \<Rightarrow> Inl e
         | Inr indexed \<Rightarrow> Inr (Some (df_sort indexed))))))))))
      else Inr None)))"

fun fitPeaks ::
  "lm_solver \<Rightarrow> stack \<Rightarrow> int \<Rightarrow> npfloat list option \<Rightarrow> string \<Rightarrow> blob list
   \<Rightarrow> exn + dataframe list" where
  "fitPeaks lm st fitwidth kw_guess kw_modeltype [] = Inr []"
| "fitPeaks lm st fitwidth kw_guess kw_modeltype (b # blobs) =
     (case fitPeaks_blob lm st fitwidth kw_guess kw_modeltype b of
        Inl e \<Rightarrow> Inl e
      | Inr found \<Rightarrow>
         (case fitPeaks lm st fitwidth kw_guess kw_modeltype blobs of
            Inl e \<Rightarrow> Inl e
          | Inr fits \<Rightarrow> Inr (case found of None \<Rightarrow> fits | Some t \<Rightarrow> t # fits)))"

section \<open>PSFStackAnalyzer.calc_psf_params\<close>

text \<open>
  \<open>np.interp(x, xp, fp)\<close> for increasing \<open>xp\<close>: the value of the piecewise linear
  function through the points; empty or unequal arrays raise ValueError.
\<close>

fun interp_points :: "npfloat \<Rightarrow> (npfloat \<times> npfloat) list \<Rightarrow> npfloat" where
  "interp_points x [] = NaN"
| "interp_points x [(x0, f0)] = f0"
| "interp_points x ((x0, f0) # (x1, f1) # rest) =
     (if flt x x1 then fadd f0 (fmul (fdiv (fsub f1 f0) (fsub x1 x0)) (fsub x x0))
      else interp_points x ((x1, f1) # rest))"

definition np_interp :: "npfloat \<Rightarrow> npfloat list \<Rightarrow> npfloat list \<Rightarrow> exn + npfloat" where
  "np_interp x xp fp =
     (if xp = [] \<or> length xp \<noteq> length fp then Inl ValueError
      else if isnan x then Inr NaN
      else if \<not> fgt x (hd xp) then Inr (hd fp)
      else Inr (interp_points x (zip xp fp)))"

text \<open>The body of the loop over the tables (lines 330 to 342): one row of the summary.\<close>

definition psf_row ::
  "lm_solver \<Rightarrow> int option \<times> int option \<Rightarrow> bool \<Rightarrow> npfloat option \<Rightarrow> npfloat option
   \<Rightarrow> dataframe \<Rightarrow> exn + pdict" where
  "psf_row lm subrange withoffset trim guess_z fit =
     (let tempfit = df_loc (df_dropna fit) subrange;
          z = map fst (df_rows tempfit)
      in case df_column tempfit ''amp'' of Inl e \<Rightarrow> Inl e | Inr amp \<Rightarrow>
        (case df_column tempfit ''x0'' of Inl e \<Rightarrow> Inl e | Inr x \<Rightarrow>
        (case df_column tempfit ''y0'' of Inl e \<Rightarrow> Inl e | Inr y \<Rightarrow>
        (case df_column tempfit ''sigma_x'' of Inl e \<Rightarrow> Inl e | Inr s_x \<Rightarrow>
        (case df_column tempfit ''sigma_y'' of Inl e \<Rightarrow> Inl e | Inr s_y \<Rightarrow>
        (case gauss_fit lm z amp withoffset trim guess_z of Inl e \<Rightarrow> Inl e | Inr popt \<Rightarrow>
        if length popt \<noteq> 4 then Inl ValueError
        else
          let famp = popt ! 0; z0 = popt ! 1; sigma_z = popt ! 2; offset = popt ! 3
          in (case np_interp z0 z x of Inl e \<Rightarrow> Inl e | Inr x0 \<Rightarrow>
             (case np_interp z0 z y of Inl e \<Rightarrow> Inl e | Inr y0 \<Rightarrow>
             (case np_interp z0 z s_x of Inl e \<Rightarrow> Inl e | Inr sigma_x \<Rightarrow>
             (case np_interp z0 z s_y of Inl e \<Rightarrow> Inl e | Inr sigma_y \<Rightarrow>
                Inr [(''z0'', z0), (''y0'', y0), (''x0'', x0), (''sigma_z'', fabs sigma_z),
                     (''sigma_y'', sigma_y), (''sigma_x'', sigma_x),
                     (''SNR'', fdiv famp offset)]))))))))))"

fun calc_psf_params ::
  "lm_solver \<Rightarrow> dataframe list \<Rightarrow> int option \<times> int option \<Rightarrow> bool \<Rightarrow> npfloat option
   \<Rightarrow> npfloat option \<Rightarrow> exn + pdict list" where
  "calc_psf_params lm [] subrange withoffset trim guess_z = Inr []"
| "calc_psf_params lm (fit # fits) subrange withoffset trim guess_z =
     (case psf_row lm subrange withoffset trim guess_z fit of
        Inl e \<Rightarrow> Inl e
      | Inr row \<Rightarrow>
         (case calc_psf_params lm fits subrange withoffset trim guess_z of
            Inl e \<Rightarrow> Inl e
          | Inr psf_params \<Rightarrow> Inr (row # psf_params)))"

text \<open>The pipeline: fitPeaks, then calc_psf_params on the tables it stored.\<close>

definition pipeline ::
  "lm_solver \<Rightarrow> stack \<Rightarrow> int \<Rightarrow> npfloat list option \<Rightarrow> string \<Rightarrow> blob list
   \<Rightarrow> int option \<times> int option \<Rightarrow> bool \<Rightarrow> npfloat option \<Rightarrow> npfloat option
   \<Rightarrow> exn + pdict list" where
  "pipeline lm st fitwidth kw_guess kw_modeltype blobs subrange withoffset trim guess_z =
     (case fitPeaks lm st fitwidth kw_guess kw_modeltype blobs of
        Inl e \<Rightarrow> Inl e
      | Inr fits \<Rightarrow> calc_psf_params lm fits subrange withoffset trim guess_z)"

section \<open>Conditions on the solver and on the candidate peaks\<close>

text \<open>
  The solver's failures that optimize_params_ls converts are the three classes of its
  \<open>except\<close> clause; gauss_fit converts RuntimeError alone. The two predicates say that
  the solver fails in no other way, returns as many parameters as the guess has, and, for
  a window, returns a centre inside the window.
\<close>

definition centre_inside :: "arr2 \<Rightarrow> npfloat list \<Rightarrow> bool" where
  "centre_inside d popt =
     (\<exists>cx cy. popt ! 1 = Fin cx \<and> popt ! 2 = Fin cy
        \<and> 0 \<le> cx \<and> cx \<le> real (ncols d) - 1 \<and> 0 \<le> cy \<and> cy \<le> real (nrows d) - 1)"

definition window_solver_ok :: "lm_solver \<Rightarrow> bool" where
  "window_solver_ok lm =
     (\<forall>d gp. case fit_window lm d gp of
                Inl e \<Rightarrow> e = OptimizeWarning \<or> e = ValueError \<or> e = RuntimeError
              | Inr popt \<Rightarrow> length popt = length gp \<and> centre_inside d popt)"

definition profile_solver_ok :: "lm_solver \<Rightarrow> bool" where
  "profile_solver_ok lm =
     (\<forall>withoffset xdata ydata p0.
        length p0 = 4 \<longrightarrow>
        (case gauss_fit_solve lm withoffset xdata ydata p0 of
           Inl e \<Rightarrow> e = RuntimeError
         | Inr popt \<Rightarrow> length popt = 4))"

text \<open>The window that sliceMaker gives around a centre has at least one row and one column.\<close>

definition proper_window :: "stack \<Rightarrow> int \<Rightarrow> int \<Rightarrow> int \<Rightarrow> bool" where
  "proper_window st y0 x0 width =
     (start (fst (sliceMaker st y0 x0 width)) < stop (fst (sliceMaker st y0 x0 width))
      \<and> start (snd (sliceMaker st y0 x0 width)) < stop (snd (sliceMaker st y0 x0 width)))"

text \<open>
  A solver as scipy behaves with fewer data points than parameters (TypeError); with
  enough points this one does not converge. A solver that meets both conditions: without
  data it does not converge, otherwise it returns the guess with the centre moved to the
  origin of the window. And a stack of two 6 by 6 slices with a candidate peak in the
  corner and one in the middle.
\<close>

definition steady_lm :: lm_solver where
  "steady_lm =
     (\<lambda>f ydata p0. if ydata = [] then Inl RuntimeError
                    else Inr (p0[1 := Fin 0, 2 := Fin 0], False))"

definition few_points_lm :: lm_solver where
  "few_points_lm = (\<lambda>f ydata p0. if length ydata < length p0 then Inl TypeError else Inl RuntimeError)"

definition small_stack :: stack where
  "small_stack = \<lparr>shape = (2, 6, 6), vox = (\<lambda>z y x. Fin 1)\<rparr>"

definition corner_blob :: blob where
  "corner_blob = \<lparr>blob_y = 0, blob_x = 0, blob_w = Fin 1, blob_amp = Fin 1\<rparr>"

definition middle_blob :: blob where
  "middle_blob = \<lparr>blob_y = 3, blob_x = 3, blob_w = Fin 1, blob_amp = Fin 1\<rparr>"

text \<open>
  What holds of the state of fitPeak's loop under these conditions: the next window is
  proper, the carried parameters have a centre, and every recorded row has only model
  parameters and the slice number as keys. And what holds of a table of fitPeaks: it has
  the columns calc_psf_params reads, and at least one row without not-a-number.
\<close>

definition row_ok :: "pdict \<Rightarrow> bool" where
  "row_ok row = (set (map fst row) \<subseteq> set (param_names 7) \<union> {''slice''})"

definition track_inv :: "stack \<Rightarrow> int \<Rightarrow> track_state \<Rightarrow> bool" where
  "track_inv st width state =
     (proper_window st (ts_y0 state) (ts_x0 state) width
      \<and> map_of (ts_popt_d state) ''x0'' \<noteq> None
      \<and> map_of (ts_popt_d state) ''y0'' \<noteq> None
      \<and> list_all row_ok (ts_toreturn state))"

definition table_ok :: "dataframe \<Rightarrow> bool" where
  "table_ok t =
     (list_all (\<lambda>k. k \<in> set (df_columns t)) [''amp'', ''x0'', ''y0'', ''sigma_x'', ''sigma_y'']
      \<and> list_ex (\<lambda>(i, row). list_all (\<lambda>(k, v). \<not> isnan v) row) (df_rows t))"

text \<open>A solver that returns not-a-number for every parameter, without raising.\<close>

definition nan_lm :: lm_solver where
  "nan_lm = (\<lambda>f ydata p0. Inr (replicate (length p0) NaN, False))"

section \<open>Properties of sliceMaker\<close>

lemma sliceMaker_start:
  "start (fst (sliceMaker st y0 x0 width)) = max 0 (y0 - width div 2)"
  "start (snd (sliceMaker st y0 x0 width)) = max 0 (x0 - width div 2)"
  by (simp_all add: sliceMaker_def Let_def max_def split: prod.splits)

lemma sliceMaker_stop:
  "shape st = (zmax, ymax, xmax) \<Longrightarrow>
   stop (fst (sliceMaker st y0 x0 width)) = min (y0 + (width - width div 2)) (int ymax - 1)"
  "shape st = (zmax, ymax, xmax) \<Longrightarrow>
   stop (snd (sliceMaker st y0 x0 width)) = min (x0 + (width - width div 2)) (int xmax - 1)"
  by (simp_all add: sliceMaker_def Let_def min_def)

text \<open>
  With the centre inside the slice and a width that is not negative, every bound lies
  between 0 and dimension - 1.
\<close>

lemma sliceMaker_inside:
  assumes "shape st = (zmax, ymax, xmax)"
    and "0 \<le> y0" "y0 < int ymax" "0 \<le> x0" "x0 < int xmax" "0 \<le> width"
  shows "0 \<le> start (fst (sliceMaker st y0 x0 width))"
    and "start (fst (sliceMaker st y0 x0 width)) \<le> int ymax - 1"
    and "0 \<le> stop (fst (sliceMaker st y0 x0 width))"
    and "stop (fst (sliceMaker st y0 x0 width)) \<le> int ymax - 1"
    and "0 \<le> start (snd (sliceMaker st y0 x0 width))"
    and "start (snd (sliceMaker st y0 x0 width)) \<le> int xmax - 1"
    and "0 \<le> stop (snd (sliceMaker st y0 x0 width))"
    and "stop (snd (sliceMaker st y0 x0 width)) \<le> int xmax - 1"
  using assms by (simp_all add: sliceMaker_start sliceMaker_stop [OF assms(1)])

text \<open>
  C7. The split of the width and the two clamps are as claimed, but only the start is
  clamped from below and only the end from above. For a centre outside the slice,
  which the tracker can pass on (the fitted centre is not restricted to the window),
  the bounds are negative or past the dimension: on a 10 by 10 slice the centre row -10
  with width 4 gives the row slice 0:-8, which numpy reads from the end as rows 0 and 1,
  and the centre row 100 gives the start 98.
\<close>

theorem sliceMaker_bounds_out_of_range:
  "sliceMaker \<lparr>shape = (1, 10, 10), vox = (\<lambda>z y x. Fin 0)\<rparr> (- 10) 5 4
     = (\<lparr>start = 0, stop = - 8\<rparr>, \<lparr>start = 3, stop = 7\<rparr>)
   \<and> selected \<lparr>start = 0, stop = - 8\<rparr> 10 = [0, 1]
   \<and> sliceMaker \<lparr>shape = (1, 10, 10), vox = (\<lambda>z y x. Fin 0)\<rparr> 100 5 4
     = (\<lparr>start = 98, stop = 9\<rparr>, \<lparr>start = 3, stop = 7\<rparr>)"
  by (simp add: sliceMaker_def Let_def selected_def adjust_index_def upt_rec)

text \<open>
  C10. The end of each slice is exclusive and at most dimension - 1, whatever the centre
  and the width: no selected row is the last row of the slice and no selected column
  the last column. When the far edge of the requested window is exactly the boundary
  of the slice (the window would fit), the end is still moved to dimension - 1 and the
  last row or column is lost.
\<close>

theorem sliceMaker_excludes_last:
  assumes "shape st = (zmax, ymax, xmax)"
  shows "stop (fst (sliceMaker st y0 x0 width)) \<le> int ymax - 1
       \<and> stop (snd (sliceMaker st y0 x0 width)) \<le> int xmax - 1
       \<and> (\<forall>r \<in> set (selected (fst (sliceMaker st y0 x0 width)) ymax). r + 1 < ymax)
       \<and> (\<forall>c \<in> set (selected (snd (sliceMaker st y0 x0 width)) xmax). c + 1 < xmax)
       \<and> (y0 + (width - width div 2) = int ymax \<longrightarrow>
            stop (fst (sliceMaker st y0 x0 width)) = int ymax - 1)
       \<and> (x0 + (width - width div 2) = int xmax \<longrightarrow>
            stop (snd (sliceMaker st y0 x0 width)) = int xmax - 1)"
proof -
  have stop_sel: "r + 1 < n" if "stop sl \<le> int n - 1" "r \<in> set (selected sl n)"
    for r n and sl :: pyslice
    using that by (auto simp: selected_def adjust_index_def split: if_splits)
  have y: "stop (fst (sliceMaker st y0 x0 width)) \<le> int ymax - 1"
    and x: "stop (snd (sliceMaker st y0 x0 width)) \<le> int xmax - 1"
    by (simp_all add: sliceMaker_stop [OF assms])
  have ysel: "r + 1 < ymax" if "r \<in> set (selected (fst (sliceMaker st y0 x0 width)) ymax)" for r
    using stop_sel [OF y that] .
  have xsel: "c + 1 < xmax" if "c \<in> set (selected (snd (sliceMaker st y0 x0 width)) xmax)" for c
    using stop_sel [OF x that] .
  show ?thesis
    using y x ysel xsel by (simp add: sliceMaker_stop [OF assms])
qed

theorem sliceMaker_excludes_last_witness:
  "stop (fst (sliceMaker \<lparr>shape = (1, 10, 10), vox = (\<lambda>z y x. Fin 0)\<rparr> 8 8 4)) = 9
   \<and> selected (fst (sliceMaker \<lparr>shape = (1, 10, 10), vox = (\<lambda>z y x. Fin 0)\<rparr> 8 8 4)) 10
       = [6, 7, 8]
   \<and> (8::nat) + 1 < 10"
  using sliceMaker_excludes_last [of "\<lparr>shape = (1, 10, 10), vox = (\<lambda>z y x. Fin 0)\<rparr>" 1 10 10 8 8 4]
  by (simp add: sliceMaker_def Let_def selected_def adjust_index_def upt_rec)

section \<open>Properties of the fit of one window\<close>

lemma start_params_data:
  "start_params self g mt = Inr (gp, self1) \<Longrightarrow> data self1 = data self"
  by (auto simp: start_params_def estimate_params_def Let_def split: option.splits sum.splits)

lemma start_params_Some:
  "start_params self (Some gp) mt = Inr (gp, self\<lparr>guess_params := Some gp\<rparr>)"
  by (simp add: start_params_def)

text \<open>
  C4. Whatever the window and the guess (a supplied one, or the moment estimate of a cold
  start), when the solver raises for non-convergence (RuntimeError) or ill-conditioning
  (OptimizeWarning, raised as an error under the warnings filter), optimize_params_ls
  does not raise: it returns the all-zero vector of the length of the guess, and stores
  it as the optimal parameters.
\<close>

theorem optimize_params_ls_catches_solver_failure:
  assumes "start_params self guess_params_arg modeltype = Inr (gp, self1)"
    and "fit_window lm (data self) gp = Inl e"
    and "e = RuntimeError \<or> e = OptimizeWarning"
  shows "optimize_params_ls lm self guess_params_arg modeltype
           = Inr (replicate (length gp) (Fin 0),
                  set_error True (self1\<lparr>opt_params := Some (replicate (length gp) (Fin 0))\<rparr>))"
  using assms start_params_data [OF assms(1)]
  by (auto simp: optimize_params_ls_def validate_def zeros_like_def)

lemma model_ravel_ok:
  "length gp = 5 \<or> length gp = 6 \<or> length gp = 7 \<Longrightarrow>
   \<exists>v. model_ravel (meshgrid nc nr) gp = Inr v"
  by (auto simp: model_ravel_def model_def gauss2D_sym_def gauss2D_norot_def gauss2D_def
      meshgrid_def arr_shape_def)

lemma fit_window_lm:
  "length gp = 5 \<or> length gp = 6 \<or> length gp = 7 \<Longrightarrow>
   fit_window lm d gp =
     warnings_as_errors (lm (model_ravel (meshgrid (ncols d) (nrows d))) (ravel d) gp)"
  using model_ravel_ok [of gp "ncols d" "nrows d"]
  by (auto simp: fit_window_def curve_fit_def)

theorem optimize_params_ls_catches_solver_failure_witness:
  "fit_window (\<lambda>f y p. Inl RuntimeError) (data (Gauss2D single_pixel_window))
       [Fin 1, Fin 1, Fin 1, Fin 1, Fin 0] = Inl RuntimeError
   \<and> optimize_params_ls (\<lambda>f y p. Inl RuntimeError) (Gauss2D single_pixel_window)
       (Some [Fin 1, Fin 1, Fin 1, Fin 1, Fin 0]) ''full''
     = Inr ([Fin 0, Fin 0, Fin 0, Fin 0, Fin 0],
            set_error True ((Gauss2D single_pixel_window)
              \<lparr>guess_params := Some [Fin 1, Fin 1, Fin 1, Fin 1, Fin 0],
               opt_params := Some [Fin 0, Fin 0, Fin 0, Fin 0, Fin 0]\<rparr>))"
proof -
  have fw: "fit_window (\<lambda>f y p. Inl RuntimeError) (data (Gauss2D single_pixel_window))
       [Fin 1, Fin 1, Fin 1, Fin 1, Fin 0] = Inl RuntimeError"
    by (simp add: fit_window_lm warnings_as_errors_def)
  show ?thesis
    using optimize_params_ls_catches_solver_failure
      [OF start_params_Some fw, of "''full''"] fw
    by (simp add: numeral_eq_Suc)
qed


text \<open>
  C5. When the solver returns normally a vector whose fitted width is greater than the
  largest dimension of the window (entry 3 for five parameters; entry 3 or entry 4 for
  six or seven), optimize_params_ls returns the all-zero sentinel of the length of the
  guess without raising.
\<close>

theorem optimize_params_ls_rejects_wide_fit:
  assumes "start_params self guess_params_arg modeltype = Inr (gp, self1)"
    and "fit_window lm (data self) gp = Inr popt"
    and "(length popt = 5 \<and> fgt (popt ! 3) (max_s (data self)))
       \<or> ((length popt = 6 \<or> length popt = 7)
          \<and> (fgt (popt ! 3) (max_s (data self)) \<or> fgt (popt ! 4) (max_s (data self))))"
  shows "optimize_params_ls lm self guess_params_arg modeltype
           = Inr (replicate (length gp) (Fin 0),
                  set_error True (self1\<lparr>opt_params := Some (replicate (length gp) (Fin 0))\<rparr>))"
  using assms start_params_data [OF assms(1)]
  by (auto simp: optimize_params_ls_def validate_def zeros_like_def Let_def)

theorem optimize_params_ls_rejects_wide_fit_witness:
  "fit_window (\<lambda>f y p. Inr ([Fin 1, Fin 1, Fin 1, Fin 3, Fin 0], False))
       (data (Gauss2D single_pixel_window)) [Fin 1, Fin 1, Fin 1, Fin 1, Fin 0]
     = Inr [Fin 1, Fin 1, Fin 1, Fin 3, Fin 0]
   \<and> fgt ([Fin 1, Fin 1, Fin 1, Fin 3, Fin 0] ! 3)
        (max_s (data (Gauss2D single_pixel_window)))
   \<and> optimize_params_ls (\<lambda>f y p. Inr ([Fin 1, Fin 1, Fin 1, Fin 3, Fin 0], False))
       (Gauss2D single_pixel_window) (Some [Fin 1, Fin 1, Fin 1, Fin 1, Fin 0]) ''full''
     = Inr ([Fin 0, Fin 0, Fin 0, Fin 0, Fin 0],
            set_error True ((Gauss2D single_pixel_window)
              \<lparr>guess_params := Some [Fin 1, Fin 1, Fin 1, Fin 1, Fin 0],
               opt_params := Some [Fin 0, Fin 0, Fin 0, Fin 0, Fin 0]\<rparr>))"
proof -
  have fw: "fit_window (\<lambda>f y p. Inr ([Fin 1, Fin 1, Fin 1, Fin 3, Fin 0], False))
       (data (Gauss2D single_pixel_window)) [Fin 1, Fin 1, Fin 1, Fin 1, Fin 0]
     = Inr [Fin 1, Fin 1, Fin 1, Fin 3, Fin 0]"
    by (simp add: fit_window_lm warnings_as_errors_def)
  have wide: "fgt ([Fin 1, Fin 1, Fin 1, Fin 3, Fin 0] ! 3)
        (max_s (data (Gauss2D single_pixel_window)))"
    by (simp add: Gauss2D_def single_pixel_window_def max_s_def)
  show ?thesis
    using optimize_params_ls_rejects_wide_fit
      [OF start_params_Some fw, of "''full''"] fw wide
    by (simp add: numeral_eq_Suc)
qed

text \<open>
  C8, as stated, fails inside a fit: the model raises ValueError for four parameters,
  but optimize_params_ls, whose \<open>except\<close> clause lists ValueError next to the solver's
  failures, turns that error into the all-zero failure result. The solver of this example
  would have returned the guess unchanged, so the failure comes from the model alone.
\<close>

theorem invalid_count_suppressed_inside_fit:
  "model (meshgrid 2 2) [Fin 1, Fin 1, Fin 1, Fin 1] = Inl ValueError
   \<and> optimize_params_ls (\<lambda>f y p. Inr (p, False)) (Gauss2D single_pixel_window)
       (Some [Fin 1, Fin 1, Fin 1, Fin 1]) ''full''
     = Inr ([Fin 0, Fin 0, Fin 0, Fin 0],
            set_error True ((Gauss2D single_pixel_window)
              \<lparr>guess_params := Some [Fin 1, Fin 1, Fin 1, Fin 1],
               opt_params := Some [Fin 0, Fin 0, Fin 0, Fin 0]\<rparr>))"
  by (simp add: model_def optimize_params_ls_def start_params_def fit_window_def curve_fit_def
      model_ravel_def warnings_as_errors_def validate_def zeros_like_def Gauss2D_def
      numeral_eq_Suc)

lemma fit_window_bad_count:
  "length gp \<noteq> 5 \<Longrightarrow> length gp \<noteq> 6 \<Longrightarrow> length gp \<noteq> 7 \<Longrightarrow> fit_window lm d gp = Inl ValueError"
  by (simp add: fit_window_def curve_fit_def model_ravel_def model_def warnings_as_errors_def)

text \<open>
  C8, amended. Called directly, the dispatch selects the symmetric, axis-aligned and full
  variant for 5, 6 and 7 parameters and raises ValueError for every other count, and the
  Gaussian raises ValueError for coordinate arrays of different shapes before it computes
  anything. Inside optimize_params_ls the wrong count is not propagated: a guess of
  another length gives the all-zero failure result of the length of the guess.
\<close>

theorem model_dispatch_and_invalid_input:
  "(length args = 5 \<longrightarrow>
      model xd args = gauss2D_sym xd (args ! 0) (args ! 1) (args ! 2) (args ! 3) (args ! 4))
   \<and> (length args = 6 \<longrightarrow>
      model xd args
        = gauss2D_norot xd (args ! 0) (args ! 1) (args ! 2) (args ! 3) (args ! 4) (args ! 5))
   \<and> (length args = 7 \<longrightarrow>
      model xd args
        = gauss2D xd (args ! 0) (args ! 1) (args ! 2) (args ! 3) (args ! 4) (args ! 5) (args ! 6))
   \<and> (length args \<noteq> 5 \<and> length args \<noteq> 6 \<and> length args \<noteq> 7 \<longrightarrow>
      model xd args = Inl ValueError)
   \<and> (arr_shape x0 \<noteq> arr_shape x1 \<longrightarrow>
      gauss2D (x0, x1) amp mu0 mu1 sigma0 sigma1 rho offset = Inl ValueError
      \<and> gauss2D_norot (x0, x1) amp mu0 mu1 sigma0 sigma1 offset = Inl ValueError
      \<and> gauss2D_sym (x0, x1) amp mu0 mu1 sigma0 offset = Inl ValueError)
   \<and> (length gp \<noteq> 5 \<and> length gp \<noteq> 6 \<and> length gp \<noteq> 7 \<longrightarrow>
      optimize_params_ls lm self (Some gp) modeltype
        = Inr (replicate (length gp) (Fin 0),
               set_error True (self\<lparr>guess_params := Some gp,
                                     opt_params := Some (replicate (length gp) (Fin 0))\<rparr>)))"
  by (simp add: model_def gauss2D_def gauss2D_norot_def gauss2D_sym_def
      optimize_params_ls_def start_params_def fit_window_bad_count validate_def zeros_like_def)

theorem model_dispatch_and_invalid_input_witness:
  "model (meshgrid 2 2) [Fin 1, Fin 1, Fin 1, Fin 1, Fin 0]
     = gauss2D_sym (meshgrid 2 2) (Fin 1) (Fin 1) (Fin 1) (Fin 1) (Fin 0)
   \<and> model (meshgrid 2 2) [Fin 1, Fin 1, Fin 1, Fin 1, Fin 1, Fin 0]
     = gauss2D_norot (meshgrid 2 2) (Fin 1) (Fin 1) (Fin 1) (Fin 1) (Fin 1) (Fin 0)
   \<and> model (meshgrid 2 2) [Fin 1, Fin 1, Fin 1, Fin 1, Fin 1, Fin 0, Fin 0]
     = gauss2D (meshgrid 2 2) (Fin 1) (Fin 1) (Fin 1) (Fin 1) (Fin 1) (Fin 0) (Fin 0)
   \<and> model (meshgrid 2 2) [Fin 1, Fin 1, Fin 1, Fin 1] = Inl ValueError
   \<and> arr_shape (fst (meshgrid 2 2)) \<noteq> arr_shape (fst (meshgrid 3 2))
   \<and> gauss2D (fst (meshgrid 2 2), fst (meshgrid 3 2))
        (Fin 1) (Fin 1) (Fin 1) (Fin 1) (Fin 1) (Fin 0) (Fin 0) = Inl ValueError
   \<and> optimize_params_ls (\<lambda>f y p. Inr (p, False)) (Gauss2D single_pixel_window)
        (Some [Fin 1, Fin 1, Fin 1, Fin 1]) ''full''
     = Inr ([Fin 0, Fin 0, Fin 0, Fin 0],
            set_error True ((Gauss2D single_pixel_window)
              \<lparr>guess_params := Some [Fin 1, Fin 1, Fin 1, Fin 1],
               opt_params := Some [Fin 0, Fin 0, Fin 0, Fin 0]\<rparr>))"
proof -
  have s: "arr_shape (fst (meshgrid 2 2)) \<noteq> arr_shape (fst (meshgrid 3 2))"
    by (simp add: arr_shape_def meshgrid_def)
  show ?thesis
    using s
      model_dispatch_and_invalid_input [of "[Fin 1, Fin 1, Fin 1, Fin 1, Fin 0]" "meshgrid 2 2"]
      model_dispatch_and_invalid_input [of "[Fin 1, Fin 1, Fin 1, Fin 1, Fin 1, Fin 0]" "meshgrid 2 2"]
      model_dispatch_and_invalid_input [of "[Fin 1, Fin 1, Fin 1, Fin 1, Fin 1, Fin 0, Fin 0]" "meshgrid 2 2"]
      model_dispatch_and_invalid_input [of "[Fin 1, Fin 1, Fin 1, Fin 1]" "meshgrid 2 2"
        "fst (meshgrid 2 2)" "fst (meshgrid 3 2)" "Fin 1" "Fin 1" "Fin 1" "Fin 1" "Fin 1" "Fin 0" "Fin 0"
        "[Fin 1, Fin 1, Fin 1, Fin 1]" "\<lambda>f y p. Inr (p, False)" "Gauss2D single_pixel_window" "''full''"]
    by (simp add: numeral_eq_Suc)
qed

section \<open>Properties of the moment estimate\<close>

lemma grid_Fin:
  assumes "\<forall>r<nr. \<forall>c<nc. g r c = Fin (h r c)"
  shows "concat (map (\<lambda>r. map (g r) [0..<nc]) [0..<nr])
       = map Fin (concat (map (\<lambda>r. map (h r) [0..<nc]) [0..<nr]))"
proof -
  have "map (\<lambda>r. map (g r) [0..<nc]) [0..<nr] = map (\<lambda>r. map Fin (map (h r) [0..<nc])) [0..<nr]"
    using assms by (intro map_cong) auto
  then show ?thesis
    by (simp only: map_concat map_map comp_def)
qed

lemma sum_list_grid:
  "sum_list (concat (map (\<lambda>r. map (h r) [0..<nc]) [0..<nr])) = (\<Sum>r<nr. \<Sum>c<nc. (h r c :: real))"
  by (induction nr) (simp_all add: interv_sum_list_conv_sum_set_nat atLeast0LessThan)

lemma set_grid:
  "set (concat (map (\<lambda>r. map (h r) [0..<nc]) [0..<nr])) = pixels h nr nc"
  by (auto simp: pixels_def)

lemma fsum_Fin: "foldl fadd (Fin a) (map Fin xs) = Fin (a + sum_list xs)"
  by (induction xs arbitrary: a) (simp_all add: algebra_simps)

lemma fpow_Fin: "fpow (Fin a) n = Fin (a ^ n)"
  by (induction n) simp_all


lemma moments_Fin:
  assumes "\<forall>r<nrows d. \<forall>c<ncols d. px d r c = Fin (f r c)"
  shows "moments d p q = Fin (raw_moment f (nrows d) (ncols d) p q)"
proof -
  have "\<forall>r<nrows d. \<forall>c<ncols d.
          fmul (fmul (px d r c) (fpow (Fin (real r)) q)) (fpow (Fin (real c)) p)
            = Fin (f r c * real r ^ q * real c ^ p)"
    using assms by (simp add: fpow_Fin)
  from grid_Fin [OF this] show ?thesis
    by (simp add: moments_def fsum_def fsum_Fin sum_list_grid raw_moment_def)
qed

lemma foldl_fmax2_Fin: "foldl fmax2 (Fin a) (map Fin xs) = Fin (Max (set (a # xs)))"
proof -
  have "foldl fmax2 (Fin b) (map Fin xs) = Fin (fold max xs b)" for b
    by (induction xs arbitrary: b) (simp_all add: fmax2_def max_def)
  then show ?thesis
    by (simp only: Max.set_eq_fold)
qed

lemma foldl_fmin2_Fin: "foldl fmin2 (Fin a) (map Fin xs) = Fin (Min (set (a # xs)))"
proof -
  have "foldl fmin2 (Fin b) (map Fin xs) = Fin (fold min xs b)" for b
    by (induction xs arbitrary: b) (simp_all add: fmin2_def min_def)
  then show ?thesis
    by (simp only: Min.set_eq_fold)
qed


lemma np_max_Fin: "xs \<noteq> [] \<Longrightarrow> np_max (map Fin xs) = Inr (Fin (Max (set xs)))"
  by (cases xs) (simp_all add: np_max_def foldl_fmax2_Fin del: set_simps)

lemma np_min_Fin: "xs \<noteq> [] \<Longrightarrow> np_min (map Fin xs) = Inr (Fin (Min (set xs)))"
  by (cases xs) (simp_all add: np_min_def foldl_fmin2_Fin del: set_simps)

lemma ravel_Fin:
  assumes "\<forall>r<nrows d. \<forall>c<ncols d. px d r c = Fin (f r c)"
  shows "ravel d = map Fin (concat (map (\<lambda>r. map (f r) [0..<ncols d]) [0..<nrows d]))"
  unfolding ravel_def using grid_Fin [OF assms] .

lemma grid_nonempty:
  "0 < nr \<Longrightarrow> 0 < nc \<Longrightarrow> concat (map (\<lambda>r. map (h r) [0..<nc]) [0..<nr]) \<noteq> []"
  by (cases nr; cases nc) (simp_all add: upt_conv_Cons del: upt_Suc)


lemma raw_moment_simps:
  "raw_moment f nr nc 0 0 = (\<Sum>r<nr. \<Sum>c<nc. f r c)"
  "raw_moment f nr nc 1 0 = (\<Sum>r<nr. \<Sum>c<nc. f r c * real c)"
  "raw_moment f nr nc 0 1 = (\<Sum>r<nr. \<Sum>c<nc. f r c * real r)"
  "raw_moment f nr nc 2 0 = (\<Sum>r<nr. \<Sum>c<nc. f r c * (real c * real c))"
  "raw_moment f nr nc 0 2 = (\<Sum>r<nr. \<Sum>c<nc. f r c * (real r * real r))"
  "raw_moment f nr nc 1 1 = (\<Sum>r<nr. \<Sum>c<nc. f r c * real r * real c)"
  by (simp_all add: raw_moment_def power2_eq_square)

text \<open>
  The variances and the covariance the code computes from raw moments are the central
  moments about the centroid.
\<close>

lemma central_moment_20:
  assumes "raw_moment f nr nc 0 0 \<noteq> 0"
  shows "raw_moment f nr nc 2 0 / raw_moment f nr nc 0 0 - (centroid0 f nr nc) ^ 2
       = central_moment f nr nc 2 0"
proof -
  define cx where "cx = centroid0 f nr nc"
  define m00 where "m00 = raw_moment f nr nc 0 0"
  have m10: "raw_moment f nr nc 1 0 = cx * m00"
    using assms by (simp add: cx_def m00_def centroid0_def)
  have "(\<Sum>r<nr. \<Sum>c<nc. f r c * (real c - cx) ^ 2)
      = (\<Sum>r<nr. \<Sum>c<nc. (f r c * (real c * real c) - 2 * cx * (f r c * real c)) + cx * cx * f r c)"
    by (intro sum.cong refl) (simp add: power2_eq_square algebra_simps)
  also have "\<dots> = raw_moment f nr nc 2 0 - 2 * cx * raw_moment f nr nc 1 0 + cx * cx * m00"
    by (simp only: raw_moment_simps m00_def sum.distrib sum_subtractf sum_distrib_left)
  also have "\<dots> = raw_moment f nr nc 2 0 - 2 * cx * (cx * m00) + cx * cx * m00"
    by (simp only: m10)
  also have "\<dots> = raw_moment f nr nc 2 0 - cx * cx * m00"
    by (simp add: algebra_simps)
  finally have "(\<Sum>r<nr. \<Sum>c<nc. f r c * (real c - cx) ^ 2)
      = raw_moment f nr nc 2 0 - cx * cx * m00" .
  then have "central_moment f nr nc 2 0 = (raw_moment f nr nc 2 0 - cx * cx * m00) / m00"
    by (simp add: central_moment_def cx_def m00_def)
  also have "\<dots> = raw_moment f nr nc 2 0 / m00 - cx ^ 2"
    using assms by (simp add: m00_def diff_divide_distrib power2_eq_square)
  finally show ?thesis
    by (simp add: m00_def cx_def)
qed


lemma central_moment_02:
  assumes "raw_moment f nr nc 0 0 \<noteq> 0"
  shows "raw_moment f nr nc 0 2 / raw_moment f nr nc 0 0 - (centroid1 f nr nc) ^ 2
       = central_moment f nr nc 0 2"
proof -
  define cy where "cy = centroid1 f nr nc"
  define m00 where "m00 = raw_moment f nr nc 0 0"
  have m01: "raw_moment f nr nc 0 1 = cy * m00"
    using assms by (simp add: cy_def m00_def centroid1_def)
  have "(\<Sum>r<nr. \<Sum>c<nc. f r c * (real r - cy) ^ 2)
      = (\<Sum>r<nr. \<Sum>c<nc. (f r c * (real r * real r) - 2 * cy * (f r c * real r)) + cy * cy * f r c)"
    by (intro sum.cong refl) (simp add: power2_eq_square algebra_simps)
  also have "\<dots> = raw_moment f nr nc 0 2 - 2 * cy * raw_moment f nr nc 0 1 + cy * cy * m00"
    by (simp only: raw_moment_simps m00_def sum.distrib sum_subtractf sum_distrib_left)
  also have "\<dots> = raw_moment f nr nc 0 2 - 2 * cy * (cy * m00) + cy * cy * m00"
    by (simp only: m01)
  also have "\<dots> = raw_moment f nr nc 0 2 - cy * cy * m00"
    by (simp add: algebra_simps)
  finally have "(\<Sum>r<nr. \<Sum>c<nc. f r c * (real r - cy) ^ 2)
      = raw_moment f nr nc 0 2 - cy * cy * m00" .
  then have "central_moment f nr nc 0 2 = (raw_moment f nr nc 0 2 - cy * cy * m00) / m00"
    by (simp add: central_moment_def cy_def m00_def)
  also have "\<dots> = raw_moment f nr nc 0 2 / m00 - cy ^ 2"
    using assms by (simp add: m00_def diff_divide_distrib power2_eq_square)
  finally show ?thesis
    by (simp add: m00_def cy_def)
qed

lemma central_moment_11:
  assumes "raw_moment f nr nc 0 0 \<noteq> 0"
  shows "raw_moment f nr nc 1 1 / raw_moment f nr nc 0 0 - centroid0 f nr nc * centroid1 f nr nc
       = central_moment f nr nc 1 1"
proof -
  define cx where "cx = centroid0 f nr nc"
  define cy where "cy = centroid1 f nr nc"
  define m00 where "m00 = raw_moment f nr nc 0 0"
  have m10: "raw_moment f nr nc 1 0 = cx * m00"
    using assms by (simp add: cx_def m00_def centroid0_def)
  have m01: "raw_moment f nr nc 0 1 = cy * m00"
    using assms by (simp add: cy_def m00_def centroid1_def)
  have "(\<Sum>r<nr. \<Sum>c<nc. f r c * (real r - cy) * (real c - cx))
      = (\<Sum>r<nr. \<Sum>c<nc. ((f r c * real r * real c - cx * (f r c * real r))
                               - cy * (f r c * real c)) + cx * cy * f r c)"
    by (intro sum.cong refl) (simp add: algebra_simps)
  also have "\<dots> = raw_moment f nr nc 1 1 - cx * raw_moment f nr nc 0 1
                    - cy * raw_moment f nr nc 1 0 + cx * cy * m00"
    by (simp only: raw_moment_simps m00_def sum.distrib sum_subtractf sum_distrib_left)
  also have "\<dots> = raw_moment f nr nc 1 1 - cx * (cy * m00) - cy * (cx * m00) + cx * cy * m00"
    by (simp only: m10 m01)
  also have "\<dots> = raw_moment f nr nc 1 1 - cx * cy * m00"
    by (simp add: algebra_simps)
  finally have "(\<Sum>r<nr. \<Sum>c<nc. f r c * (real r - cy) * (real c - cx))
      = raw_moment f nr nc 1 1 - cx * cy * m00" .
  then have "central_moment f nr nc 1 1 = (raw_moment f nr nc 1 1 - cx * cy * m00) / m00"
    by (simp add: central_moment_def cx_def cy_def m00_def)
  also have "\<dots> = raw_moment f nr nc 1 1 / m00 - cx * cy"
    using assms by (simp add: m00_def diff_divide_distrib)
  finally show ?thesis
    by (simp add: m00_def cx_def cy_def)
qed

text \<open>
  C6, amended. For every non-empty window of finite intensities whose total intensity is
  not zero, estimate_params returns: the window maximum; the two first-order moment
  ratios; the square roots of the absolute second central moments; the central mixed
  moment divided by the square root of the absolute product of the two variances; the
  window minimum. The absolute value guards the square roots. The division is not
  guarded: when the product of the variances is zero the correlation entry is
  not-a-number or an infinity (numpy does not raise).
\<close>

theorem estimate_params_values:
  assumes nonempty: "0 < nrows (data self)" "0 < ncols (data self)"
    and finite: "\<forall>r<nrows (data self). \<forall>c<ncols (data self). px (data self) r c = Fin (f r c)"
    and total: "raw_moment f (nrows (data self)) (ncols (data self)) 0 0 \<noteq> 0"
    and nr: "nr = nrows (data self)" and nc: "nc = ncols (data self)"
    and xvar: "xvar = central_moment f nr nc 2 0"
    and yvar: "yvar = central_moment f nr nc 0 2"
    and covar: "covar = central_moment f nr nc 1 1"
    and params: "params =
      [Fin (Max (pixels f nr nc)),
       Fin (centroid0 f nr nc),
       Fin (centroid1 f nr nc),
       Fin (sqrt \<bar>xvar\<bar>),
       Fin (sqrt \<bar>yvar\<bar>),
       (if xvar * yvar \<noteq> 0 then Fin (covar / sqrt \<bar>xvar * yvar\<bar>)
        else if covar = 0 then NaN else if 0 < covar then PInf else NInf),
       Fin (Min (pixels f nr nc))]"
  shows "estimate_params self = Inr (params, self\<lparr>guess_params := Some params\<rparr>)"
proof -
  let ?d = "data self"
  let ?grid = "concat (map (\<lambda>r. map (f r) [0..<nc]) [0..<nr])"
  have M: "moments ?d p q = Fin (raw_moment f nr nc p q)" for p q
    using moments_Fin [OF finite] by (simp add: nr nc)
  have rv: "ravel ?d = map Fin ?grid"
    using ravel_Fin [OF finite] by (simp add: nr nc)
  have ne: "?grid \<noteq> []"
    using nonempty grid_nonempty [of nr nc f] by (simp add: nr nc)
  have mx: "np_max (ravel ?d) = Inr (Fin (Max (pixels f nr nc)))"
    by (simp only: rv np_max_Fin [OF ne] set_grid)
  have mn: "np_min (ravel ?d) = Inr (Fin (Min (pixels f nr nc)))"
    by (simp only: rv np_min_Fin [OF ne] set_grid)
  have t: "raw_moment f nr nc 0 0 \<noteq> 0"
    using total by (simp add: nr nc)
  have xb: "fdiv (moments ?d 1 0) (moments ?d 0 0) = Fin (centroid0 f nr nc)"
    using t by (simp add: M centroid0_def)
  have yb: "fdiv (moments ?d 0 1) (moments ?d 0 0) = Fin (centroid1 f nr nc)"
    using t by (simp add: M centroid1_def)
  have xv: "fsub (fdiv (moments ?d 2 0) (moments ?d 0 0)) (fpow (Fin (centroid0 f nr nc)) 2)
              = Fin xvar"
    using t central_moment_20 [OF t] by (simp add: M fsub_def fpow_Fin xvar)
  have yv: "fsub (fdiv (moments ?d 0 2) (moments ?d 0 0)) (fpow (Fin (centroid1 f nr nc)) 2)
              = Fin yvar"
    using t central_moment_02 [OF t] by (simp add: M fsub_def fpow_Fin yvar)
  have cv: "fsub (fdiv (moments ?d 1 1) (moments ?d 0 0))
                 (fmul (Fin (centroid0 f nr nc)) (Fin (centroid1 f nr nc))) = Fin covar"
    using t central_moment_11 [OF t] by (simp add: M fsub_def covar)
  have corr: "fdiv (Fin covar) (fsqrt (fabs (fmul (Fin xvar) (Fin yvar))))
                = (if xvar * yvar \<noteq> 0 then Fin (covar / sqrt \<bar>xvar * yvar\<bar>)
                   else if covar = 0 then NaN else if 0 < covar then PInf else NInf)"
    by simp
  show ?thesis
    unfolding estimate_params_def Let_def
    by (simp only: xb yb xv yv cv mx mn corr sum.case prod.case params fsqrt.simps fabs.simps
        abs_ge_zero not_less [symmetric] if_False)
       simp
qed


text \<open>
  C6, as stated, fails on a window of zero variance: with the whole intensity in one pixel
  both variances and the covariance are zero, and the correlation entry is the unguarded
  quotient 0/0, not-a-number.
\<close>

theorem estimate_params_zero_variance:
  "estimate_params (Gauss2D single_pixel_window)
     = Inr ([Fin 1, Fin 1, Fin 1, Fin 0, Fin 0, NaN, Fin 0],
            (Gauss2D single_pixel_window)
              \<lparr>guess_params := Some [Fin 1, Fin 1, Fin 1, Fin 0, Fin 0, NaN, Fin 0]\<rparr>)"
  by (simp add: estimate_params_def Gauss2D_def moments_def single_pixel_window_def fsum_def
      upt_rec numeral_2_eq_2 np_max_def np_min_def ravel_def fmax2_def fmin2_def fsub_def
      Let_def)

lemma diag_vals:
  "raw_moment (\<lambda>r c. if r = c then 1 else 0) 2 2 0 0 = 2"
  "centroid0 (\<lambda>r c. if r = c then 1 else 0) 2 2 = 1 / 2"
  "centroid1 (\<lambda>r c. if r = c then 1 else 0) 2 2 = 1 / 2"
  "central_moment (\<lambda>r c. if r = c then 1 else 0) 2 2 2 0 = 1 / 4"
  "central_moment (\<lambda>r c. if r = c then 1 else 0) 2 2 0 2 = 1 / 4"
  "central_moment (\<lambda>r c. if r = c then 1 else 0) 2 2 1 1 = 1 / 4"
  "pixels (\<lambda>r c. if r = c then 1 else 0) 2 2 = {0, 1}"
  by (auto simp: raw_moment_def centroid0_def centroid1_def central_moment_def pixels_def
      lessThan_Suc numeral_2_eq_2 power2_eq_square)

theorem estimate_params_values_witness:
  "0 < nrows (data (Gauss2D diagonal_window))
   \<and> raw_moment (\<lambda>r c. if r = c then 1 else 0) 2 2 0 0 = 2
   \<and> estimate_params (Gauss2D diagonal_window)
     = Inr ([Fin 1, Fin (1 / 2), Fin (1 / 2), Fin (1 / 2), Fin (1 / 2), Fin 1, Fin 0],
            (Gauss2D diagonal_window)
              \<lparr>guess_params :=
                 Some [Fin 1, Fin (1 / 2), Fin (1 / 2), Fin (1 / 2), Fin (1 / 2), Fin 1, Fin 0]\<rparr>)"
proof -
  let ?f = "\<lambda>r c :: nat. if r = c then 1 else 0 :: real"
  have nr: "2 = nrows (data (Gauss2D diagonal_window))"
    and nc: "2 = ncols (data (Gauss2D diagonal_window))"
    by (simp_all add: Gauss2D_def diagonal_window_def)
  have n1: "0 < nrows (data (Gauss2D diagonal_window))"
    and n2: "0 < ncols (data (Gauss2D diagonal_window))"
    by (simp_all add: nr [symmetric] nc [symmetric])
  have fin: "\<forall>r<nrows (data (Gauss2D diagonal_window)).
               \<forall>c<ncols (data (Gauss2D diagonal_window)).
                 px (data (Gauss2D diagonal_window)) r c = Fin (?f r c)"
    by (simp add: Gauss2D_def diagonal_window_def)
  have tot: "raw_moment ?f (nrows (data (Gauss2D diagonal_window)))
               (ncols (data (Gauss2D diagonal_window))) 0 0 \<noteq> 0"
    by (simp add: nr [symmetric] nc [symmetric] diag_vals)
  have sq: "sqrt \<bar>1 / 4\<bar> = 1 / 2" "sqrt \<bar>1 / 4 * (1 / 4)\<bar> = 1 / 4"
    by (simp_all add: real_sqrt_divide real_sqrt_mult)
  have mm: "Max {0, 1 :: real} = 1" "Min {0, 1 :: real} = 0"
    by simp_all
  have corr: "(1 / 4 :: real) * (1 / 4) \<noteq> 0" "(1 / 4 :: real) / (1 / 4) = 1"
    by simp_all
  note e = estimate_params_values [OF n1 n2 fin tot nr nc refl refl refl refl]
  show ?thesis
    by (simp only: n1 diag_vals(1) simp_thms e diag_vals sq mm corr if_True)
qed

section \<open>Properties of the 1D fit\<close>

lemma fmul_NaN [simp]: "fmul v NaN = NaN"
  by (cases v) simp_all

lemma broadcast_same_length:
  "length xs = length ys \<Longrightarrow> broadcast f xs ys = Inr (map2 f xs ys)"
  by (simp add: broadcast_def)

lemma gauss_fit_p0_ok:
  assumes "ydata \<noteq> []" "length xdata = length ydata"
  shows "\<exists>amp x0 sigma_x offset. gauss_fit_p0 xdata ydata guess_z = Inr [amp, x0, sigma_x, offset]"
proof -
  obtain y ys where ydata: "ydata = y # ys"
    using assms(1) by (cases ydata) auto
  obtain offset where mn: "np_min ydata = Inr offset"
    by (simp add: np_min_def ydata)
  obtain amp where mx: "np_max (map (\<lambda>y. fsub y offset) ydata) = Inr amp"
    by (simp add: np_max_def ydata)
  have nm: "\<exists>v. nmoment xdata (map (\<lambda>y. fsub y offset) ydata) c n = Inr v" for c n
    using assms(2) by (simp add: nmoment_def broadcast_same_length)
  obtain x0 where x0: "(case guess_z of None \<Rightarrow> nmoment xdata (map (\<lambda>y. fsub y offset) ydata) (Fin 0) 1
                         | Some g \<Rightarrow> Inr g) = Inr x0"
    using nm [of "Fin 0" 1] by (cases guess_z) auto
  obtain m2 where m2: "nmoment xdata (map (\<lambda>y. fsub y offset) ydata) x0 2 = Inr m2"
    using nm [of x0 2] by auto
  show ?thesis
    by (simp add: gauss_fit_p0_def mn mx x0 m2 Let_def)
qed

lemma gauss_fit_trim_ok:
  assumes "length xdata = length ydata"
  shows "\<exists>xd yd. gauss_fit_trim xdata ydata trim p0 = Inr (xd, yd)"
  using assms by (cases trim) (simp_all add: gauss_fit_trim_def mask_index_def Let_def)






text \<open>
  What lies outside the amended claim: an empty profile raises before the solver is
  called, and an exception of the solver of any class other than RuntimeError leaves
  gauss_fit unchanged.
\<close>

lemma gauss_fit_empty_profile: "gauss_fit lm [] [] withoffset trim guess_z = Inl ValueError"
  by (simp add: gauss_fit_def gauss_fit_p0_def np_min_def)

lemma gauss_fit_other_exception:
  assumes "gauss_fit_p0 xdata ydata guess_z = Inr p0"
    and "gauss_fit_trim xdata ydata trim p0 = Inr (xd, yd)"
    and "gauss_fit_solve lm withoffset xd yd p0 = Inl e" "e \<noteq> RuntimeError"
  shows "gauss_fit lm xdata ydata withoffset trim guess_z = Inl e"
  using assms by (simp add: gauss_fit_def)

section \<open>Properties of fitPeak\<close>

lemma ravel_nonempty: "0 < nrows d \<Longrightarrow> 0 < ncols d \<Longrightarrow> ravel d \<noteq> []"
  unfolding ravel_def by (rule grid_nonempty)

lemma estimate_params_ok:
  assumes "0 < nrows (data self)" "0 < ncols (data self)"
  shows "\<exists>gp. estimate_params self = Inr (gp, self\<lparr>guess_params := Some gp\<rparr>) \<and> length gp = 7"
proof -
  obtain v vs where r: "ravel (data self) = v # vs"
    using ravel_nonempty [OF assms] by (cases "ravel (data self)") auto
  show ?thesis
    by (simp add: estimate_params_def Let_def r np_max_def np_min_def)
qed

lemma estimate_params_length:
  "estimate_params self = Inr (gp, self1) \<Longrightarrow> length gp = 7 \<and> self1 = self\<lparr>guess_params := Some gp\<rparr>"
  by (auto simp: estimate_params_def Let_def split: sum.splits)

lemma np_delete_7:
  assumes "length gp = 7"
  shows "length (np_delete gp [5]) = 6" "length (np_delete gp [4, 5]) = 5"
proof -
  have u: "[0..<7] = [0, 1, 2, 3, 4, 5, 6]"
    by (simp add: upt_rec)
  show "length (np_delete gp [5]) = 6" "length (np_delete gp [4, 5]) = 5"
    by (simp_all add: np_delete_def assms u)
qed

text \<open>The length of the cold-start guess for the three model types.\<close>

lemma start_params_cold_length:
  assumes "start_params self None modeltype = Inr (gp, self1)"
  shows "lower modeltype = ''sym'' \<Longrightarrow> length gp = 6"
    and "lower modeltype = ''norot'' \<Longrightarrow> length gp = 5"
    and "lower modeltype \<noteq> ''sym'' \<Longrightarrow> lower modeltype \<noteq> ''norot'' \<Longrightarrow> length gp = 7"
  using assms
  by (auto simp: start_params_def np_delete_7 split: sum.splits dest!: estimate_params_length)

lemma optimize_params_ls_failed:
  assumes "start_params self guess_params_arg modeltype = Inr (gp, self1)"
    and "fit_window lm (data self) gp = Inl e"
    and "e = RuntimeError \<or> e = OptimizeWarning \<or> e = ValueError"
  shows "optimize_params_ls lm self guess_params_arg modeltype
           = Inr (replicate (length gp) (Fin 0),
                  set_error True (self1\<lparr>opt_params := Some (replicate (length gp) (Fin 0))\<rparr>))"
  using assms start_params_data [OF assms(1)]
  by (auto simp: optimize_params_ls_def validate_def zeros_like_def)

lemma fit_window_failing_lm:
  "fit_window failing_lm d gp = Inl (if length gp = 5 \<or> length gp = 6 \<or> length gp = 7
                                     then RuntimeError else ValueError)"
  by (auto simp: fit_window_lm fit_window_bad_count failing_lm_def warnings_as_errors_def)

lemma optimize_params_ls_failing_lm:
  assumes "start_params self guess_params_arg modeltype = Inr (gp, self1)"
  shows "optimize_params_ls failing_lm self guess_params_arg modeltype
           = Inr (replicate (length gp) (Fin 0),
                  set_error True (self1\<lparr>opt_params := Some (replicate (length gp) (Fin 0))\<rparr>))"
  by (rule optimize_params_ls_failed [OF assms fit_window_failing_lm]) auto


lemma set_error_simps [simp]:
  "error (set_error b self) = b"
  "data (set_error b self) = data self"
  "opt_params (set_error b self) = opt_params self"
  "guess_params (set_error b self) = guess_params self"
  by (simp_all add: set_error_def)

text \<open>
  One pass of the loop when the solver never converges: both attempts fail, the row
  recorded is the all-zero sentinel of the retry, the rounded centre stays, and the
  carried parameters are the ones shifted into the window.
\<close>

lemma fitPeak_step_failing_lm:
  assumes w: "window st s (sliceMaker st (ts_y0 state) (ts_x0 state) width) = Inr w"
    and ne: "0 < nrows w" "0 < ncols w"
    and d1: "dict_sub (ts_popt_d state) ''x0''
               (of_py_int (start (snd (sliceMaker st (ts_y0 state) (ts_x0 state) width)))) = Inr d1"
    and d2: "dict_sub d1 ''y0''
               (of_py_int (start (fst (sliceMaker st (ts_y0 state) (ts_x0 state) width)))) = Inr popt_d"
    and n: "n = (if lower modeltype = ''sym'' then 6 else if lower modeltype = ''norot'' then 5 else 7)"
  shows "fitPeak_step failing_lm st width modeltype state s
           = Inr \<lparr>ts_toreturn = ts_toreturn state
                     @ [AList.update ''slice'' (of_py_int s)
                          (zip (param_names n) (replicate n (Fin 0)))],
                   ts_popt_d = popt_d, ts_y0 = ts_y0 state, ts_x0 = ts_x0 state\<rparr>"
proof -
  let ?g = "dict_to_params popt_d"
  let ?fit1 = "set_error True ((Gauss2D w)\<lparr>guess_params := Some ?g,
                 opt_params := Some (replicate (length ?g) (Fin 0))\<rparr>)"
  have warm: "optimize_params_ls failing_lm (Gauss2D w) (Some ?g) ''full''
                = Inr (replicate (length ?g) (Fin 0), ?fit1)"
    by (simp add: optimize_params_ls_failing_lm [OF start_params_Some])
  have dw: "data ?fit1 = w"
    by (simp add: Gauss2D_def)
  obtain gp where est: "estimate_params ?fit1 = Inr (gp, ?fit1\<lparr>guess_params := Some gp\<rparr>)"
    and len: "length gp = 7"
    using estimate_params_ok [of ?fit1] ne by (auto simp only: dw)
  define gp' where "gp' = (if lower modeltype = ''sym'' then np_delete gp [5]
                    else if lower modeltype = ''norot'' then np_delete gp [4, 5] else gp)"
  have sp: "start_params ?fit1 None modeltype = Inr (gp', ?fit1\<lparr>guess_params := Some gp\<rparr>)"
    by (simp add: start_params_def est gp'_def)
  have len': "length gp' = n"
    by (simp add: gp'_def n np_delete_7 [OF len] len)
  have cold: "optimize_params_ls failing_lm ?fit1 None modeltype
                = Inr (replicate n (Fin 0),
                       set_error True (?fit1\<lparr>guess_params := Some gp,
                         opt_params := Some (replicate n (Fin 0))\<rparr>))"
    using optimize_params_ls_failing_lm [OF sp] by (simp add: len')
  show ?thesis
    by (simp add: fitPeak_step_def Let_def w d1 d2 warm cold opt_params_dict_def)
qed


lemma flat_stack_slices:
  "sliceMaker flat_stack 10 10 4 = (\<lparr>start = 8, stop = 12\<rparr>, \<lparr>start = 8, stop = 12\<rparr>)"
  by (simp add: sliceMaker_def flat_stack_def Let_def)

lemma flat_stack_window:
  "s = 1 \<or> s = 2 \<Longrightarrow>
   window flat_stack s (\<lparr>start = 8, stop = 12\<rparr>, \<lparr>start = 8, stop = 12\<rparr>)
     = Inr \<lparr>nrows = 4, ncols = 4, px = (\<lambda>r c. Fin 1)\<rparr>"
  by (auto simp: window_def window_at_def flat_stack_def index_axis_def adjust_index_def Let_def)

lemma round_half_even_of_int [simp]: "round_half_even (of_int i) = i"
  by (simp add: round_half_even_def)

text \<open>
  C3. When both attempts of a slice fail, a failed result is recorded and the rounded
  centre stays, as claimed; but the carried guess is not what it was before the
  slice. The loop body shifts \<open>popt_d\<close> into the window before the fit
  (\<open>popt_d['x0'] -= xstart\<close>) and the failure branch, whose comment says the positions
  must not be updated, does not shift it back. With the window starting at (8, 8) the
  carried centre (10, 10) is (2, 2) after one failed slice and (-6, -6) after two, while
  the window stays where it was.
\<close>

theorem fitPeak_failed_slice_shifts_guess:
  "fitPeak_init full_start
     = Inr \<lparr>ts_toreturn = [], ts_popt_d = full_start, ts_y0 = 10, ts_x0 = 10\<rparr>
   \<and> fitPeak_step failing_lm flat_stack 4 (modeltype_of full_start)
        \<lparr>ts_toreturn = [], ts_popt_d = full_start, ts_y0 = 10, ts_x0 = 10\<rparr> 1
     = Inr \<lparr>ts_toreturn =
              [[(''amp'', Fin 0), (''x0'', Fin 0), (''y0'', Fin 0), (''sigma_x'', Fin 0),
                (''sigma_y'', Fin 0), (''rho'', Fin 0), (''offset'', Fin 0), (''slice'', Fin 1)]],
            ts_popt_d =
              [(''amp'', Fin 1), (''x0'', Fin 2), (''y0'', Fin 2), (''sigma_x'', Fin 2),
               (''sigma_y'', Fin 2), (''rho'', Fin 0), (''offset'', Fin 0)],
            ts_y0 = 10, ts_x0 = 10\<rparr>
   \<and> fitPeak_step failing_lm flat_stack 4 (modeltype_of full_start)
        \<lparr>ts_toreturn =
              [[(''amp'', Fin 0), (''x0'', Fin 0), (''y0'', Fin 0), (''sigma_x'', Fin 0),
                (''sigma_y'', Fin 0), (''rho'', Fin 0), (''offset'', Fin 0), (''slice'', Fin 1)]],
            ts_popt_d =
              [(''amp'', Fin 1), (''x0'', Fin 2), (''y0'', Fin 2), (''sigma_x'', Fin 2),
               (''sigma_y'', Fin 2), (''rho'', Fin 0), (''offset'', Fin 0)],
            ts_y0 = 10, ts_x0 = 10\<rparr> 2
     = Inr \<lparr>ts_toreturn =
              [[(''amp'', Fin 0), (''x0'', Fin 0), (''y0'', Fin 0), (''sigma_x'', Fin 0),
                (''sigma_y'', Fin 0), (''rho'', Fin 0), (''offset'', Fin 0), (''slice'', Fin 1)],
               [(''amp'', Fin 0), (''x0'', Fin 0), (''y0'', Fin 0), (''sigma_x'', Fin 0),
                (''sigma_y'', Fin 0), (''rho'', Fin 0), (''offset'', Fin 0), (''slice'', Fin 2)]],
            ts_popt_d =
              [(''amp'', Fin 1), (''x0'', Fin (- 6)), (''y0'', Fin (- 6)), (''sigma_x'', Fin 2),
               (''sigma_y'', Fin 2), (''rho'', Fin 0), (''offset'', Fin 0)],
            ts_y0 = 10, ts_x0 = 10\<rparr>
   \<and> dict_get full_start ''x0'' = Inr (Fin 10)
   \<and> dict_get full_start ''y0'' = Inr (Fin 10)"
proof -
  have i: "fitPeak_init full_start
     = Inr \<lparr>ts_toreturn = [], ts_popt_d = full_start, ts_y0 = 10, ts_x0 = 10\<rparr>"
    using round_half_even_of_int [of 10]
    by (simp add: fitPeak_init_def full_start_def dict_get_def)
  have s: "fitPeak_step failing_lm flat_stack 4 (modeltype_of full_start)
        \<lparr>ts_toreturn = [], ts_popt_d = full_start, ts_y0 = 10, ts_x0 = 10\<rparr> 1
     = Inr \<lparr>ts_toreturn =
              [[(''amp'', Fin 0), (''x0'', Fin 0), (''y0'', Fin 0), (''sigma_x'', Fin 0),
                (''sigma_y'', Fin 0), (''rho'', Fin 0), (''offset'', Fin 0), (''slice'', Fin 1)]],
            ts_popt_d =
              [(''amp'', Fin 1), (''x0'', Fin 2), (''y0'', Fin 2), (''sigma_x'', Fin 2),
               (''sigma_y'', Fin 2), (''rho'', Fin 0), (''offset'', Fin 0)],
            ts_y0 = 10, ts_x0 = 10\<rparr>"
    by (subst fitPeak_step_failing_lm [where n = 7
          and w = "\<lparr>nrows = 4, ncols = 4, px = (\<lambda>r c. Fin 1)\<rparr>"
          and ?d1.0 = "[(''amp'', Fin 1), (''x0'', Fin 2), (''y0'', Fin 10), (''sigma_x'', Fin 2),
               (''sigma_y'', Fin 2), (''rho'', Fin 0), (''offset'', Fin 0)]"])
       (simp_all add: flat_stack_slices flat_stack_window full_start_def dict_sub_def dict_get_def
          of_py_int_def fsub_def modeltype_of_def lower_def lower_char_def param_names_def
          numeral_eq_Suc)
  have s2: "fitPeak_step failing_lm flat_stack 4 (modeltype_of full_start)
        \<lparr>ts_toreturn =
              [[(''amp'', Fin 0), (''x0'', Fin 0), (''y0'', Fin 0), (''sigma_x'', Fin 0),
                (''sigma_y'', Fin 0), (''rho'', Fin 0), (''offset'', Fin 0), (''slice'', Fin 1)]],
            ts_popt_d =
              [(''amp'', Fin 1), (''x0'', Fin 2), (''y0'', Fin 2), (''sigma_x'', Fin 2),
               (''sigma_y'', Fin 2), (''rho'', Fin 0), (''offset'', Fin 0)],
            ts_y0 = 10, ts_x0 = 10\<rparr> 2
     = Inr \<lparr>ts_toreturn =
              [[(''amp'', Fin 0), (''x0'', Fin 0), (''y0'', Fin 0), (''sigma_x'', Fin 0),
                (''sigma_y'', Fin 0), (''rho'', Fin 0), (''offset'', Fin 0), (''slice'', Fin 1)],
               [(''amp'', Fin 0), (''x0'', Fin 0), (''y0'', Fin 0), (''sigma_x'', Fin 0),
                (''sigma_y'', Fin 0), (''rho'', Fin 0), (''offset'', Fin 0), (''slice'', Fin 2)]],
            ts_popt_d =
              [(''amp'', Fin 1), (''x0'', Fin (- 6)), (''y0'', Fin (- 6)), (''sigma_x'', Fin 2),
               (''sigma_y'', Fin 2), (''rho'', Fin 0), (''offset'', Fin 0)],
            ts_y0 = 10, ts_x0 = 10\<rparr>"
    by (subst fitPeak_step_failing_lm [where n = 7
          and w = "\<lparr>nrows = 4, ncols = 4, px = (\<lambda>r c. Fin 1)\<rparr>"
          and ?d1.0 = "[(''amp'', Fin 1), (''x0'', Fin (- 6)), (''y0'', Fin 2), (''sigma_x'', Fin 2),
               (''sigma_y'', Fin 2), (''rho'', Fin 0), (''offset'', Fin 0)]"])
       (simp_all add: flat_stack_slices flat_stack_window dict_sub_def dict_get_def
          of_py_int_def fsub_def modeltype_of_def full_start_def lower_def lower_char_def
          param_names_def numeral_eq_Suc)
  have g: "dict_get full_start ''x0'' = Inr (Fin 10)" "dict_get full_start ''y0'' = Inr (Fin 10)"
    by (simp_all add: full_start_def dict_get_def)
  show ?thesis
    using i s s2 g by (simp only: simp_thms)
qed

text \<open>
  C1. fitPeak chooses the model type of the retry from the length of the starting fit
  (five parameters: \<open>sym\<close>), but optimize_params_ls deletes only the correlation from
  the seven estimated parameters for \<open>sym\<close> and both the second width and the correlation
  for \<open>norot\<close>: the two deletions are exchanged. On a track that starts from five
  parameters the retried fit of a failed slice has six.
\<close>

theorem fitPeak_retry_changes_length:
  "length (dict_to_params sym_start) = 5
   \<and> modeltype_of sym_start = ''sym''
   \<and> fitPeak failing_lm flat_stack [1] 4 sym_start
     = Inr [[(''amp'', Fin 0), (''x0'', Fin 0), (''y0'', Fin 0), (''sigma_x'', Fin 0),
             (''sigma_y'', Fin 0), (''offset'', Fin 0), (''slice'', Fin 1)]]"
proof -
  have i: "fitPeak_init sym_start
     = Inr \<lparr>ts_toreturn = [], ts_popt_d = sym_start, ts_y0 = 10, ts_x0 = 10\<rparr>"
    using round_half_even_of_int [of 10]
    by (simp add: fitPeak_init_def sym_start_def dict_get_def)
  have m: "modeltype_of sym_start = ''sym''"
    by (simp add: modeltype_of_def sym_start_def)
  have s: "fitPeak_step failing_lm flat_stack 4 ''sym''
        \<lparr>ts_toreturn = [], ts_popt_d = sym_start, ts_y0 = 10, ts_x0 = 10\<rparr> 1
     = Inr \<lparr>ts_toreturn =
              [[(''amp'', Fin 0), (''x0'', Fin 0), (''y0'', Fin 0), (''sigma_x'', Fin 0),
                (''sigma_y'', Fin 0), (''offset'', Fin 0), (''slice'', Fin 1)]],
            ts_popt_d =
              [(''amp'', Fin 1), (''x0'', Fin 2), (''y0'', Fin 2), (''sigma_x'', Fin 2),
               (''offset'', Fin 0)],
            ts_y0 = 10, ts_x0 = 10\<rparr>"
    by (subst fitPeak_step_failing_lm [where n = 6
          and w = "\<lparr>nrows = 4, ncols = 4, px = (\<lambda>r c. Fin 1)\<rparr>"
          and ?d1.0 = "[(''amp'', Fin 1), (''x0'', Fin 2), (''y0'', Fin 10), (''sigma_x'', Fin 2),
               (''offset'', Fin 0)]"])
       (simp_all add: flat_stack_slices flat_stack_window sym_start_def dict_sub_def dict_get_def
          of_py_int_def fsub_def lower_def lower_char_def param_names_def numeral_eq_Suc)
  have l: "length (dict_to_params sym_start) = 5"
    by (simp add: dict_to_params_def sym_start_def param_names_def)
  show ?thesis
    using l m by (simp add: fitPeak_def i s)
qed

section \<open>Properties of the pipeline\<close>

lemma length_ravel: "length (ravel d) = nrows d * ncols d"
  by (simp add: ravel_def length_concat comp_def sum_list_triv)

lemma optimize_params_ls_uncaught:
  assumes "start_params self guess_params_arg modeltype = Inr (gp, self1)"
    and "fit_window lm (data self) gp = Inl e"
    and "e \<noteq> RuntimeError" "e \<noteq> OptimizeWarning" "e \<noteq> ValueError"
  shows "optimize_params_ls lm self guess_params_arg modeltype = Inl e"
  using assms start_params_data [OF assms(1)]
  by (auto simp: optimize_params_ls_def validate_def)

lemma corner_window:
  "window_at small_stack z (sliceMaker small_stack 0 0 4)
     = \<lparr>nrows = 2, ncols = 2, px = (\<lambda>r c. Fin 1)\<rparr>"
  by (simp add: window_at_def sliceMaker_def small_stack_def Let_def adjust_index_def)

lemma corner_seed_fit:
  "optimize_params_ls few_points_lm (Gauss2D \<lparr>nrows = 2, ncols = 2, px = (\<lambda>r c. Fin 1)\<rparr>)
     None ''full'' = Inl TypeError"
proof -
  let ?w = "\<lparr>nrows = 2, ncols = 2, px = (\<lambda>r c. Fin 1)\<rparr>"
  obtain gp where est: "estimate_params (Gauss2D ?w) = Inr (gp, (Gauss2D ?w)\<lparr>guess_params := Some gp\<rparr>)"
    and len: "length gp = 7"
    using estimate_params_ok [of "Gauss2D ?w"] by (auto simp: Gauss2D_def)
  have sp: "start_params (Gauss2D ?w) None ''full''
              = Inr (gp, (Gauss2D ?w)\<lparr>guess_params := Some gp\<rparr>)"
    by (simp add: start_params_def est lower_def lower_char_def)
  have fw: "fit_window few_points_lm (data (Gauss2D ?w)) gp = Inl TypeError"
    by (simp add: fit_window_lm len few_points_lm_def warnings_as_errors_def length_ravel
        Gauss2D_def)
  show ?thesis
    by (rule optimize_params_ls_uncaught [OF sp fw]) simp_all
qed

text \<open>
  C2. The pipeline does not complete on every stack and detector result. The comment
  above the fit in optimize_params_ls (src/gauss2d.py, lines 193 and 194) says that any
  errors of the fit are caught and the optimized parameters set to zero, but the handler
  names three classes, and an exception of the solver outside them leaves the seed fit
  and fitPeaks. The window of the peak in the corner has four pixels, fewer than the
  seven parameters of the seed fit; the solver raises TypeError, as scipy does, and the
  whole batch, the peak in the middle included, is lost: one bad peak aborts the run.
\<close>

theorem pipeline_aborted_by_one_peak:
  "pipeline few_points_lm small_stack 4 None ''full'' [corner_blob, middle_blob]
     (None, None) True None None = Inl TypeError"
proof -
  have sums: "map (\<lambda>z. fsum (ravel \<lparr>nrows = 2, ncols = 2, px = (\<lambda>r c. Fin 1)\<rparr>)) [0..<2]
                = [Fin 4, Fin 4]"
    by (simp add: fsum_def ravel_def upt_rec numeral_2_eq_2)
  have "fitPeaks_blob few_points_lm small_stack 4 None ''full'' corner_blob = Inl TypeError"
    unfolding fitPeaks_blob_def
    by (simp add: corner_blob_def corner_window sums corner_seed_fit np_argmax_def Let_def
        small_stack_def [THEN arg_cong, of shape])
  then show ?thesis
    by (simp add: pipeline_def)
qed

section \<open>The pipeline when the solver fails only in the ways the code catches\<close>

text \<open>
  From here on the solver fails only in the ways the code catches and returns centres
  inside the window. Then no pass of fitPeak's loop raises, and the next window is
  proper again.
\<close>

lemma window_solver_okD:
  "window_solver_ok lm \<Longrightarrow>
   (case fit_window lm d gp of
      Inl e \<Rightarrow> e = OptimizeWarning \<or> e = ValueError \<or> e = RuntimeError
    | Inr popt \<Rightarrow> length popt = length gp \<and> centre_inside d popt)"
  unfolding window_solver_ok_def by blast

lemma optimize_params_ls_total:
  assumes ok: "window_solver_ok lm"
    and sp: "start_params self g mt = Inr (gp, self1)"
  shows "\<exists>popt self2. optimize_params_ls lm self g mt = Inr (popt, self2)
          \<and> opt_params self2 = Some popt \<and> data self2 = data self
          \<and> (error self2 \<longrightarrow> popt = replicate (length gp) (Fin 0))
          \<and> (\<not> error self2 \<longrightarrow> length popt = length gp
                \<and> (length gp = 5 \<or> length gp = 6 \<or> length gp = 7)
                \<and> centre_inside (data self) popt)"
proof (cases "fit_window lm (data self) gp")
  case (Inl e)
  then have "e = RuntimeError \<or> e = OptimizeWarning \<or> e = ValueError"
    using window_solver_okD [OF ok, where d = "data self" and gp = gp] by auto
  from optimize_params_ls_failed [OF sp Inl this] show ?thesis
    using start_params_data [OF sp] by simp
next
  case (Inr popt)
  then have len: "length popt = length gp" and ci: "centre_inside (data self) popt"
    using window_solver_okD [OF ok, where d = "data self" and gp = gp] by auto
  have gl: "length gp = 5 \<or> length gp = 6 \<or> length gp = 7"
    using Inr fit_window_bad_count [of gp lm "data self"] by auto
  show ?thesis
    using Inr len ci gl sp start_params_data [OF sp]
    by (auto simp: optimize_params_ls_def validate_def zeros_like_def)
qed

lemma round_half_even_between:
  assumes "real_of_int a \<le> v" "v \<le> real_of_int b"
  shows "a \<le> round_half_even v \<and> round_half_even v \<le> b"
proof -
  have f1: "a \<le> \<lfloor>v\<rfloor>"
    using assms(1) by (simp add: le_floor_iff)
  have f2: "\<lfloor>v\<rfloor> \<le> b"
    using assms(2) by (simp add: floor_le_iff)
  have f3: "\<lfloor>v\<rfloor> + 1 \<le> b" if "v - of_int \<lfloor>v\<rfloor> \<ge> 1 / 2"
  proof -
    have "of_int \<lfloor>v\<rfloor> < v" using that by linarith
    then have "real_of_int \<lfloor>v\<rfloor> < real_of_int b" using assms(2) by linarith
    then show ?thesis by linarith
  qed
  show ?thesis
    using f1 f2 f3 by (auto simp: round_half_even_def Let_def)
qed


lemma adjust_index_inside: "0 \<le> i \<Longrightarrow> i \<le> int n \<Longrightarrow> adjust_index i n = nat i"
  by (auto simp: adjust_index_def)

lemma proper_window_dims:
  assumes sh: "shape st = (zmax, ymax, xmax)" and pw: "proper_window st y0 x0 width"
  shows "int (nrows (window_at st z (sliceMaker st y0 x0 width)))
           = stop (fst (sliceMaker st y0 x0 width)) - start (fst (sliceMaker st y0 x0 width))"
    and "int (ncols (window_at st z (sliceMaker st y0 x0 width)))
           = stop (snd (sliceMaker st y0 x0 width)) - start (snd (sliceMaker st y0 x0 width))"
    and "0 < nrows (window_at st z (sliceMaker st y0 x0 width))"
    and "0 < ncols (window_at st z (sliceMaker st y0 x0 width))"
proof -
  let ?ms = "sliceMaker st y0 x0 width"
  have ys: "0 \<le> start (fst ?ms)" "start (fst ?ms) < stop (fst ?ms)" "stop (fst ?ms) \<le> int ymax - 1"
    and xs: "0 \<le> start (snd ?ms)" "start (snd ?ms) < stop (snd ?ms)" "stop (snd ?ms) \<le> int xmax - 1"
    using pw by (simp_all add: proper_window_def sliceMaker_start sliceMaker_stop [OF sh])
  have a: "adjust_index (start (fst ?ms)) ymax = nat (start (fst ?ms))"
    "adjust_index (stop (fst ?ms)) ymax = nat (stop (fst ?ms))"
    "adjust_index (start (snd ?ms)) xmax = nat (start (snd ?ms))"
    "adjust_index (stop (snd ?ms)) xmax = nat (stop (snd ?ms))"
    using ys xs by (simp_all add: adjust_index_inside)
  show "int (nrows (window_at st z ?ms)) = stop (fst ?ms) - start (fst ?ms)"
    and "int (ncols (window_at st z ?ms)) = stop (snd ?ms) - start (snd ?ms)"
    and "0 < nrows (window_at st z ?ms)"
    and "0 < ncols (window_at st z ?ms)"
    using ys xs by (simp_all add: window_at_def sh Let_def a)
qed

lemma proper_window_move:
  assumes sh: "shape st = (zmax, ymax, xmax)" and w: "1 \<le> width"
    and pw: "proper_window st y0 x0 width"
    and y: "start (fst (sliceMaker st y0 x0 width)) \<le> y'"
           "y' \<le> stop (fst (sliceMaker st y0 x0 width)) - 1"
    and x: "start (snd (sliceMaker st y0 x0 width)) \<le> x'"
           "x' \<le> stop (snd (sliceMaker st y0 x0 width)) - 1"
  shows "proper_window st y' x' width"
proof -
  have h: "0 \<le> width div 2" "1 \<le> width - width div 2"
    using w by simp_all
  have ys: "0 \<le> y'" "y' \<le> int ymax - 2"
    and xs: "0 \<le> x'" "x' \<le> int xmax - 2"
    using y x by (simp_all add: sliceMaker_start sliceMaker_stop [OF sh])
  show ?thesis
    unfolding proper_window_def sliceMaker_start sliceMaker_stop [OF sh]
    using w h ys xs by (simp only: max_def min_def split: if_splits) linarith
qed

lemma param_names_zip:
  assumes "3 \<le> length popt"
  shows "map_of (zip (param_names n) popt) ''x0'' = Some (popt ! 1)"
    and "map_of (zip (param_names n) popt) ''y0'' = Some (popt ! 2)"
proof -
  obtain a b c rest where p: "popt = a # b # c # rest"
    using assms by (cases popt; cases "tl popt"; cases "tl (tl popt)") auto
  show "map_of (zip (param_names n) popt) ''x0'' = Some (popt ! 1)"
    and "map_of (zip (param_names n) popt) ''y0'' = Some (popt ! 2)"
    by (simp_all add: p param_names_def)
qed

lemma param_names_subset: "set (param_names n) \<subseteq> set (param_names 7)"
  by (auto simp: param_names_def)

lemma row_ok_zip: "row_ok (AList.update ''slice'' v (zip (param_names n) popt))"
proof -
  have "fst ` set (zip (param_names n) popt) \<subseteq> set (param_names n)"
    by (auto dest: set_zip_leftD)
  then show ?thesis
    using param_names_subset [of n] by (auto simp: row_ok_def dom_update)
qed

lemma dict_add_present:
  "map_of d k = Some v \<Longrightarrow> dict_add d k u = Inr (AList.update k (fadd v u) d)"
  by (simp add: dict_add_def dict_get_def)

lemma dict_sub_present:
  "map_of d k = Some v \<Longrightarrow> dict_sub d k u = Inr (AList.update k (fsub v u) d)"
  by (simp add: dict_sub_def dict_get_def)

lemma row_ok_update: "row_ok d \<Longrightarrow> map_of d k \<noteq> None \<Longrightarrow> row_ok (AList.update k v d)"
  by (auto simp: row_ok_def dom_update map_of_eq_None_iff)


lemma start_params_cold_ok:
  assumes "0 < nrows (data self)" "0 < ncols (data self)"
  shows "\<exists>gp self1. start_params self None modeltype = Inr (gp, self1)"
  using estimate_params_ok [OF assms] by (auto simp: start_params_def)

lemma fitPeak_step_total:
  assumes ok: "window_solver_ok lm" and sh: "shape st = (zmax, ymax, xmax)" and wd: "1 \<le> width"
    and inv: "track_inv st width state" and s: "0 \<le> s" "s < int zmax"
  shows "\<exists>state'. fitPeak_step lm st width modeltype state s = Inr state'
           \<and> track_inv st width state'"
proof -
  let ?ms = "sliceMaker st (ts_y0 state) (ts_x0 state) width"
  let ?w = "window_at st (nat s) ?ms"
  let ?xs = "of_py_int (start (snd ?ms))"
  let ?ys = "of_py_int (start (fst ?ms))"
  have pw: "proper_window st (ts_y0 state) (ts_x0 state) width"
    and rows: "list_all row_ok (ts_toreturn state)"
    using inv by (simp_all add: track_inv_def)
  have win: "window st s ?ms = Inr ?w"
    using s by (simp add: window_def sh index_axis_def)
  note dims = proper_window_dims [OF sh pw, of "nat s"]
  obtain vx vy where kx: "map_of (ts_popt_d state) ''x0'' = Some vx"
    and ky: "map_of (ts_popt_d state) ''y0'' = Some vy"
    using inv by (auto simp: track_inv_def)
  define d1 where "d1 = AList.update ''x0'' (fsub vx ?xs) (ts_popt_d state)"
  define popt_d where "popt_d = AList.update ''y0'' (fsub vy ?ys) d1"
  have s1: "dict_sub (ts_popt_d state) ''x0'' ?xs = Inr d1"
    by (simp add: d1_def dict_sub_present [OF kx])
  have ky1: "map_of d1 ''y0'' = Some vy"
    by (simp add: d1_def update_conv' ky)
  have s2: "dict_sub d1 ''y0'' ?ys = Inr popt_d"
    by (simp add: popt_d_def dict_sub_present [OF ky1])
  have keys: "map_of popt_d ''x0'' \<noteq> None" "map_of popt_d ''y0'' \<noteq> None"
    by (simp_all add: popt_d_def d1_def update_conv')
  have dg: "data (Gauss2D ?w) = ?w"
    by (simp add: Gauss2D_def)
  obtain p1 fit1 where warm:
      "optimize_params_ls lm (Gauss2D ?w) (Some (dict_to_params popt_d)) ''full'' = Inr (p1, fit1)"
    and o1: "opt_params fit1 = Some p1" and dat1: "data fit1 = ?w"
    and good1: "\<not> error fit1 \<Longrightarrow> 5 \<le> length p1 \<and> centre_inside ?w p1"
    using optimize_params_ls_total [OF ok start_params_Some, of "Gauss2D ?w" "dict_to_params popt_d" "''full''"]
    by (auto simp: dg)
  obtain p2 fit where second:
      "(if error fit1 then optimize_params_ls lm fit1 None modeltype else Inr (p1, fit1))
         = Inr (p2, fit)"
    and o2: "opt_params fit = Some p2"
    and good2: "\<not> error fit \<Longrightarrow> 5 \<le> length p2 \<and> centre_inside ?w p2"
  proof (cases "error fit1")
    case True
    obtain gp self1 where sp: "start_params fit1 None modeltype = Inr (gp, self1)"
      using start_params_cold_ok [of fit1 modeltype] dims by (auto simp: dat1)
    from optimize_params_ls_total [OF ok sp] show ?thesis
      using True that by (auto simp: dat1)
  next
    case False
    then show ?thesis
      using that [of p1 fit1] o1 good1 by simp
  qed
  show ?thesis
  proof (cases "error fit")
    case True
    have "fitPeak_step lm st width modeltype state s
            = Inr \<lparr>ts_toreturn = ts_toreturn state
                     @ [AList.update ''slice'' (of_py_int s) (zip (param_names (length p2)) p2)],
                   ts_popt_d = popt_d, ts_y0 = ts_y0 state, ts_x0 = ts_x0 state\<rparr>"
      unfolding fitPeak_step_def Let_def
      by (simp only: win s1 s2 warm second sum.case prod.case True not_True_eq_False if_False
          opt_params_dict_def o2 option.case)
    then show ?thesis
      using pw rows keys by (simp add: track_inv_def row_ok_zip)
  next
    case False
    from good2 [OF False] obtain cx cy where len: "5 \<le> length p2"
      and cx: "p2 ! 1 = Fin cx" "0 \<le> cx" "cx \<le> real (ncols ?w) - 1"
      and cy: "p2 ! 2 = Fin cy" "0 \<le> cy" "cy \<le> real (nrows ?w) - 1"
      by (auto simp: centre_inside_def)
    let ?d2 = "zip (param_names (length p2)) p2"
    let ?nx = "Fin (cx + real_of_int (start (snd ?ms)))"
    let ?ny = "Fin (cy + real_of_int (start (fst ?ms)))"
    let ?d3 = "AList.update ''x0'' ?nx ?d2"
    let ?d4 = "AList.update ''y0'' ?ny ?d3"
    let ?new = "AList.update ''slice'' (of_py_int s) ?d4"
    have l3: "3 \<le> length p2" using len by simp
    have mx: "map_of ?d2 ''x0'' = Some (Fin cx)"
      using param_names_zip(1) [OF l3, of "length p2"] by (simp only: cx)
    have my: "map_of ?d2 ''y0'' = Some (Fin cy)"
      using param_names_zip(2) [OF l3, of "length p2"] by (simp only: cy)
    have a1: "dict_add ?d2 ''x0'' ?xs = Inr ?d3"
      by (simp add: dict_add_present [OF mx] of_py_int_def)
    have m3: "map_of ?d3 ''y0'' = Some (Fin cy)"
      by (simp add: update_conv' my)
    have a2: "dict_add ?d3 ''y0'' ?ys = Inr ?d4"
      using dict_add_present [OF m3, of ?ys] by (simp add: of_py_int_def)
    have gy: "dict_get ?new ''y0'' = Inr ?ny" and gx: "dict_get ?new ''x0'' = Inr ?nx"
      by (simp_all add: dict_get_def update_conv')
    let ?y' = "round_half_even (cy + real_of_int (start (fst ?ms)))"
    let ?x' = "round_half_even (cx + real_of_int (start (snd ?ms)))"
    have step: "fitPeak_step lm st width modeltype state s
            = Inr \<lparr>ts_toreturn = ts_toreturn state @ [?new], ts_popt_d = ?new,
                   ts_y0 = ?y', ts_x0 = ?x'\<rparr>"
      unfolding fitPeak_step_def Let_def
      by (simp only: win s1 s2 warm second sum.case prod.case False simp_thms if_True
          opt_params_dict_def o2 option.case a1 a2 gy gx int_round.simps)
    have yb: "start (fst ?ms) \<le> ?y' \<and> ?y' \<le> stop (fst ?ms) - 1"
    proof (rule round_half_even_between)
      show "real_of_int (start (fst ?ms)) \<le> cy + real_of_int (start (fst ?ms))"
        using cy by simp
      have "real (nrows ?w) = real_of_int (stop (fst ?ms) - start (fst ?ms))"
        using dims(1) by (metis of_int_of_nat_eq)
      then show "cy + real_of_int (start (fst ?ms)) \<le> real_of_int (stop (fst ?ms) - 1)"
        using cy by simp
    qed
    have xb: "start (snd ?ms) \<le> ?x' \<and> ?x' \<le> stop (snd ?ms) - 1"
    proof (rule round_half_even_between)
      show "real_of_int (start (snd ?ms)) \<le> cx + real_of_int (start (snd ?ms))"
        using cx by simp
      have "real (ncols ?w) = real_of_int (stop (snd ?ms) - start (snd ?ms))"
        using dims(2) by (metis of_int_of_nat_eq)
      then show "cx + real_of_int (start (snd ?ms)) \<le> real_of_int (stop (snd ?ms) - 1)"
        using cx by simp
    qed
    have pw': "proper_window st ?y' ?x' width"
      using proper_window_move [OF sh wd pw] yb xb by blast
    have names: "''x0'' \<in> set (param_names 7)" "''y0'' \<in> set (param_names 7)"
      by (simp_all add: param_names_def)
    have ro: "row_ok ?new"
      unfolding row_ok_def using param_names_subset [of "length p2"] names
      by (auto simp: dom_update dest: set_zip_leftD)
    show ?thesis
      using pw' rows ro by (simp add: step track_inv_def update_conv')
  qed
qed


lemma fitPeak_loop_total:
  assumes ok: "window_solver_ok lm" and sh: "shape st = (zmax, ymax, xmax)" and wd: "1 \<le> width"
    and valid: "list_all (\<lambda>s. 0 \<le> s \<and> s < int zmax) slices"
    and inv: "track_inv st width state"
  shows "\<exists>state'. fitPeak_loop lm st width modeltype slices state = Inr state'
           \<and> track_inv st width state'"
  using valid inv
proof (induction slices arbitrary: state)
  case Nil
  then show ?case by simp
next
  case (Cons s slices)
  from Cons.prems obtain state1
    where st1: "fitPeak_step lm st width modeltype state s = Inr state1"
      and inv1: "track_inv st width state1"
    using fitPeak_step_total [OF ok sh wd, of state s modeltype] by auto
  from Cons.IH [OF _ inv1] Cons.prems(1) show ?case
    by (simp add: st1)
qed

lemma fitPeak_total:
  assumes ok: "window_solver_ok lm" and sh: "shape st = (zmax, ymax, xmax)" and wd: "1 \<le> width"
    and valid: "list_all (\<lambda>s. 0 \<le> s \<and> s < int zmax) slices"
    and kx: "map_of startingfit ''x0'' = Some (Fin vx)"
    and ky: "map_of startingfit ''y0'' = Some (Fin vy)"
    and pw: "proper_window st (round_half_even vy) (round_half_even vx) width"
  shows "\<exists>rows. fitPeak lm st slices width startingfit = Inr rows \<and> list_all row_ok rows"
proof -
  let ?s0 = "\<lparr>ts_toreturn = [], ts_popt_d = startingfit,
              ts_y0 = round_half_even vy, ts_x0 = round_half_even vx\<rparr>"
  have i: "fitPeak_init startingfit = Inr ?s0"
    by (simp add: fitPeak_init_def dict_get_def kx ky)
  have inv: "track_inv st width ?s0"
    using pw by (simp add: track_inv_def kx ky)
  from fitPeak_loop_total [OF ok sh wd valid inv, of "modeltype_of startingfit"]
  show ?thesis
    by (auto simp: fitPeak_def i track_inv_def)
qed

lemma argmax_from_range:
  "argmax_from best_i best i xs = best_i
   \<or> (i \<le> argmax_from best_i best i xs \<and> argmax_from best_i best i xs < i + length xs)"
proof (induction xs arbitrary: best_i best i)
  case Nil
  then show ?case by simp
next
  case (Cons x xs)
  show ?case
    using Cons.IH [of i x "Suc i"] Cons.IH [of best_i best "Suc i"] by auto
qed

lemma np_argmax_ok: "xs \<noteq> [] \<Longrightarrow> \<exists>i. np_argmax xs = Inr i \<and> i < length xs"
  using argmax_from_range [of 0 "hd xs" 1 "tl xs"]
  by (cases xs) (auto simp: np_argmax_def)

text \<open>The table that fitPeaks builds from the seed row and the rows of the two tracks.\<close>

lemma update_entries:
  "(a, b) \<in> set (AList.update k v d) \<Longrightarrow> (a, b) = (k, v) \<or> (a, b) \<in> set d"
  by (induction d) (auto split: if_splits)

lemma delete_entries: "(a, b) \<in> set (AList.delete k d) \<Longrightarrow> (a, b) \<in> set d"
  by (simp add: AList.delete_eq)

lemma cell_entry: "k \<in> fst ` set row \<Longrightarrow> (k, cell row k) \<in> set row"
proof -
  assume "k \<in> fst ` set row"
  then obtain v where "map_of row k = Some v"
    by (cases "map_of row k") (auto simp: map_of_eq_None_iff)
  then show ?thesis
    by (simp add: cell_def map_of_SomeD)
qed

lemma isfinite_not_nan: "isfinite v \<Longrightarrow> \<not> isnan v"
  by (cases v) simp_all

lemma fabs_not_nan: "\<not> isnan v \<Longrightarrow> \<not> isnan (fabs v)"
  by (cases v) simp_all

lemma seed_row_clean:
  assumes keys: "set cols \<subseteq> fst ` set seed"
    and clean: "list_all (\<lambda>(k, v). \<not> isnan v) seed"
  shows "list_all (\<lambda>(k, v). \<not> isnan v)
           (AList.delete s (map (\<lambda>(k, v). (k, if k \<in> A then fabs v else v)) (fill_row cols seed)))"
proof -
  have vals: "\<not> isnan v" if "(k, v) \<in> set seed" for k v
    using clean that unfolding list_all_iff by blast
  have "\<not> isnan v"
    if "(k, v) \<in> set (map (\<lambda>(k, v). (k, if k \<in> A then fabs v else v)) (fill_row cols seed))"
    for k v
  proof -
    from that obtain k' where k': "k' \<in> set cols" "k = k'"
      "v = (if k' \<in> A then fabs (cell seed k') else cell seed k')"
      by (auto simp: fill_row_def)
    then have "\<not> isnan (cell seed k')"
      using cell_entry [of k' seed] keys vals by blast
    then show ?thesis
      using k' by (simp add: fabs_not_nan)
  qed
  then have "\<not> isnan v"
    if "(k, v) \<in> set (AList.delete s
          (map (\<lambda>(k, v). (k, if k \<in> A then fabs v else v)) (fill_row cols seed)))" for k v
    using delete_entries [OF that] by blast
  then show ?thesis
    unfolding list_all_iff by blast
qed

lemma DataFrame_columns:
  "set (df_columns (DataFrame dicts)) = (\<Union>d \<in> set dicts. fst ` set d)"
  by (auto simp: DataFrame_def Let_def)

lemma DataFrame_rows_Cons:
  "df_rows (DataFrame (seed # rest))
     = (Fin 0, fill_row (df_columns (DataFrame (seed # rest))) seed)
       # map (\<lambda>(i, row). (Fin (real i), fill_row (df_columns (DataFrame (seed # rest))) row))
             (enumerate 1 rest)"
  by (simp add: DataFrame_def Let_def)

lemma table_of_rows_ok:
  assumes keys: "fst ` set seed = set (param_names 7) \<union> {''slice''}"
    and vals: "list_all (\<lambda>(k, v). \<not> isnan v) seed"
    and rest: "list_all row_ok rest"
  shows "\<exists>pf ix. df_abs (DataFrame (seed # rest)) [''sigma_x'', ''sigma_y''] = Inr pf
           \<and> df_set_index pf ''slice'' = Inr ix \<and> table_ok (df_sort ix)"
proof -
  let ?df = "DataFrame (seed # rest)"
  let ?cols = "df_columns ?df"
  let ?abs = "\<lambda>(k, v). (k, if k \<in> set [''sigma_x'', ''sigma_y''] then fabs v else v)"
  have "(\<Union>d \<in> set rest. fst ` set d) \<subseteq> set (param_names 7) \<union> {''slice''}"
    using rest unfolding list_all_iff row_ok_def set_map by blast
  then have cols: "set ?cols = set (param_names 7) \<union> {''slice''}"
    unfolding DataFrame_columns using keys by auto
  let ?pf = "?df\<lparr>df_rows := map (\<lambda>(i, row). (i, map ?abs row)) (df_rows ?df)\<rparr>"
  have a: "df_abs ?df [''sigma_x'', ''sigma_y''] = Inr ?pf"
    by (simp add: df_abs_def cols param_names_def)
  let ?ix = "\<lparr>df_columns = removeAll ''slice'' ?cols,
              df_rows = map (\<lambda>(i, row). (cell row ''slice'', AList.delete ''slice'' row))
                            (df_rows ?pf)\<rparr>"
  have b: "df_set_index ?pf ''slice'' = Inr ?ix"
    by (simp add: df_set_index_def cols)
  let ?seedrow = "AList.delete ''slice'' (map ?abs (fill_row ?cols seed))"
  have clean: "list_all (\<lambda>(k, v). \<not> isnan v) ?seedrow"
  proof (rule seed_row_clean)
    show "set ?cols \<subseteq> fst ` set seed"
      by (simp only: cols keys)
    show "list_all (\<lambda>(k, v). \<not> isnan v) seed"
      by (rule vals)
  qed
  have mem: "(cell (map ?abs (fill_row ?cols seed)) ''slice'', ?seedrow) \<in> set (df_rows ?ix)"
    by (simp add: DataFrame_rows_Cons)
  have "set (df_rows (df_sort ?ix)) = set (df_rows ?ix)"
    by (simp add: df_sort_def)
  then have ex: "list_ex (\<lambda>(i, row). list_all (\<lambda>(k, v). \<not> isnan v) row) (df_rows (df_sort ?ix))"
    unfolding list_ex_iff using mem clean by blast
  have c5: "list_all (\<lambda>k. k \<in> set (df_columns (df_sort ?ix)))
              [''amp'', ''x0'', ''y0'', ''sigma_x'', ''sigma_y'']"
    by (simp add: df_sort_def cols param_names_def)
  show ?thesis
    using a b ex c5 unfolding table_ok_def by blast
qed


text \<open>One blob: the seed fit, the two tracks and the table, or nothing for a seed that is not finite.\<close>

lemma lower_full: "lower ''full'' = ''full''"
  by (simp add: lower_def lower_char_def)

lemma fitPeaks_blob_total:
  assumes ok: "window_solver_ok lm" and sh: "shape st = (zmax, ymax, xmax)"
    and wd: "1 \<le> fitwidth" and z: "0 < zmax"
    and pw: "proper_window st (blob_y b) (blob_x b) fitwidth"
  shows "\<exists>r. fitPeaks_blob lm st fitwidth None ''full'' b = Inr r
           \<and> (\<forall>t. r = Some t \<longrightarrow> table_ok t)"
proof -
  let ?ms = "sliceMaker st (blob_y b) (blob_x b) fitwidth"
  let ?sums = "map (\<lambda>z. fsum (ravel (window_at st z ?ms))) [0..<zmax]"
  let ?xs = "of_py_int (start (snd ?ms))"
  let ?ys = "of_py_int (start (fst ?ms))"
  obtain my_max where am: "np_argmax ?sums = Inr my_max" and mm: "my_max < zmax"
    using np_argmax_ok [of ?sums] z by auto
  let ?w = "window_at st my_max ?ms"
  note dims = proper_window_dims [OF sh pw, of my_max]
  have dg: "data (Gauss2D ?w) = ?w"
    by (simp add: Gauss2D_def)
  obtain gp self1 where sp: "start_params (Gauss2D ?w) None ''full'' = Inr (gp, self1)"
    using start_params_cold_ok [of "Gauss2D ?w" "''full''"] dims by (auto simp: dg)
  have lg: "length gp = 7"
    using start_params_cold_length(3) [OF sp] by (simp add: lower_full)
  obtain popt max_z where fit: "optimize_params_ls lm (Gauss2D ?w) None ''full'' = Inr (popt, max_z)"
    and op: "opt_params max_z = Some popt"
    and bad: "error max_z \<Longrightarrow> popt = replicate 7 (Fin 0)"
    and good: "\<not> error max_z \<Longrightarrow> length popt = 7 \<and> centre_inside ?w popt"
    using optimize_params_ls_total [OF ok sp] by (auto simp: lg dg)
  have lp: "length popt = 7" and ci: "centre_inside ?w popt"
  proof -
    have "length popt = 7 \<and> centre_inside ?w popt"
    proof (cases "error max_z")
      case True
      have "replicate 7 (Fin 0) ! 1 = Fin 0" "replicate 7 (Fin 0) ! 2 = Fin 0"
        by simp_all
      then have "centre_inside ?w (replicate 7 (Fin 0))"
        unfolding centre_inside_def using dims(3,4) by (intro exI [of _ 0]) simp
      then show ?thesis
        using bad [OF True] by simp
    next
      case False
      then show ?thesis by (rule good)
    qed
    then show "length popt = 7" and "centre_inside ?w popt" by simp_all
  qed
  show ?thesis
  proof (cases "list_all isfinite popt")
    case False
    have "fitPeaks_blob lm st fitwidth None ''full'' b = Inr None"
      unfolding fitPeaks_blob_def opt_params_attr_def Let_def
      by (simp only: sh prod.case am sum.case fit op option.case False if_False)
    then show ?thesis by simp
  next
    case True
    from ci obtain cx cy
      where cx: "popt ! 1 = Fin cx" "0 \<le> cx" "cx \<le> real (ncols ?w) - 1"
        and cy: "popt ! 2 = Fin cy" "0 \<le> cy" "cy \<le> real (nrows ?w) - 1"
      by (auto simp: centre_inside_def)
    let ?d0 = "zip (param_names 7) popt"
    let ?ds = "AList.update ''slice'' (of_py_int (int my_max)) ?d0"
    let ?nx = "Fin (cx + real_of_int (start (snd ?ms)))"
    let ?ny = "Fin (cy + real_of_int (start (fst ?ms)))"
    let ?d1 = "AList.update ''x0'' ?nx ?ds"
    let ?seed = "AList.update ''y0'' ?ny ?d1"
    let ?start = "AList.delete ''slice'' ?seed"
    have l3: "3 \<le> length popt" using lp by simp
    have od: "opt_params_dict max_z = Inr ?d0"
      by (simp add: opt_params_dict_def op lp)
    have mx: "map_of ?ds ''x0'' = Some (Fin cx)"
      using param_names_zip(1) [OF l3, of 7] by (simp only: cx update_conv') simp
    have a1: "dict_add ?ds ''x0'' ?xs = Inr ?d1"
      using dict_add_present [OF mx, of ?xs] by (simp add: of_py_int_def)
    have my: "map_of ?d1 ''y0'' = Some (Fin cy)"
      using param_names_zip(2) [OF l3, of 7] by (simp only: cy update_conv') simp
    have a2: "dict_add ?d1 ''y0'' ?ys = Inr ?seed"
      using dict_add_present [OF my, of ?ys] by (simp add: of_py_int_def)
    have pp: "dict_pop ?seed ''slice'' = Inr ?start"
      by (simp add: dict_pop_def update_conv')
    have kx: "map_of ?start ''x0'' = Some ?nx" and ky: "map_of ?start ''y0'' = Some ?ny"
      by (simp_all add: delete_conv' update_conv')
    let ?y' = "round_half_even (cy + real_of_int (start (fst ?ms)))"
    let ?x' = "round_half_even (cx + real_of_int (start (snd ?ms)))"
    have yb: "start (fst ?ms) \<le> ?y' \<and> ?y' \<le> stop (fst ?ms) - 1"
    proof (rule round_half_even_between)
      show "real_of_int (start (fst ?ms)) \<le> cy + real_of_int (start (fst ?ms))"
        using cy by simp
      have "real (nrows ?w) = real_of_int (stop (fst ?ms) - start (fst ?ms))"
        using dims(1) by (metis of_int_of_nat_eq)
      then show "cy + real_of_int (start (fst ?ms)) \<le> real_of_int (stop (fst ?ms) - 1)"
        using cy by simp
    qed
    have xb: "start (snd ?ms) \<le> ?x' \<and> ?x' \<le> stop (snd ?ms) - 1"
    proof (rule round_half_even_between)
      show "real_of_int (start (snd ?ms)) \<le> cx + real_of_int (start (snd ?ms))"
        using cx by simp
      have "real (ncols ?w) = real_of_int (stop (snd ?ms) - start (snd ?ms))"
        using dims(2) by (metis of_int_of_nat_eq)
      then show "cx + real_of_int (start (snd ?ms)) \<le> real_of_int (stop (snd ?ms) - 1)"
        using cx by simp
    qed
    have pw': "proper_window st ?y' ?x' fitwidth"
      using proper_window_move [OF sh wd pw] yb xb by blast
    have vf: "list_all (\<lambda>s. 0 \<le> s \<and> s < int zmax) (map int [my_max + 1..<zmax])"
      and vb: "list_all (\<lambda>s. 0 \<le> s \<and> s < int zmax) (rev (map int [0..<my_max]))"
      using mm by (simp_all add: list_all_iff)
    obtain forward where fw: "fitPeak lm st (map int [my_max + 1..<zmax]) fitwidth ?start = Inr forward"
      and fwr: "list_all row_ok forward"
      using fitPeak_total [OF ok sh wd vf kx ky pw'] by blast
    obtain backward where bw: "fitPeak lm st (rev (map int [0..<my_max])) fitwidth ?start = Inr backward"
      and bwr: "list_all row_ok backward"
      using fitPeak_total [OF ok sh wd vb kx ky pw'] by blast
    have names: "''x0'' \<in> set (param_names 7)" "''y0'' \<in> set (param_names 7)"
      "length (param_names 7) = 7"
      by (simp_all add: param_names_def)
    have k0: "fst ` set ?d0 = set (param_names 7)"
      using map_fst_zip [of "param_names 7" popt] lp names(3) by (metis set_map)
    have keys: "fst ` set ?seed = set (param_names 7) \<union> {''slice''}"
      using names(1,2) by (auto simp: dom_update k0)
    have "\<not> isnan v" if "(k, v) \<in> set ?seed" for k v
    proof -
      from that have "v = ?ny \<or> v = ?nx \<or> v = of_py_int (int my_max) \<or> (k, v) \<in> set ?d0"
        by (auto dest!: update_entries)
      moreover have "isfinite v" if "(k, v) \<in> set ?d0"
        using that True by (auto simp: list_all_iff dest: set_zip_rightD)
      ultimately show ?thesis
        by (auto simp: of_py_int_def dest: isfinite_not_nan)
    qed
    then have vals: "list_all (\<lambda>(k, v). \<not> isnan v) ?seed"
      unfolding list_all_iff by blast
    have rest: "list_all row_ok (forward @ backward)"
      using fwr bwr by simp
    obtain pf ix where ab: "df_abs (DataFrame (?seed # forward @ backward)) [''sigma_x'', ''sigma_y''] = Inr pf"
      and si: "df_set_index pf ''slice'' = Inr ix" and tok: "table_ok (df_sort ix)"
      using table_of_rows_ok [OF keys vals rest] by blast
    have "fitPeaks_blob lm st fitwidth None ''full'' b = Inr (Some (df_sort ix))"
      unfolding fitPeaks_blob_def opt_params_attr_def fitPeak_quiet_def Let_def
      by (simp only: sh prod.case am sum.case fit op option.case True if_True od a1 a2 pp fw bw
          ab si)
    then show ?thesis
      using tok by simp
  qed
qed


text \<open>The 1D fit and the summary row of one table.\<close>

lemma profile_solver_okD:
  "profile_solver_ok lm \<Longrightarrow> length p0 = 4 \<Longrightarrow>
   (case gauss_fit_solve lm withoffset xdata ydata p0 of
      Inl e \<Rightarrow> e = RuntimeError
    | Inr popt \<Rightarrow> length popt = 4)"
  unfolding profile_solver_ok_def by blast

lemma gauss_fit_total:
  assumes ok: "profile_solver_ok lm" and ne: "ydata \<noteq> []" and len: "length xdata = length ydata"
  shows "\<exists>popt. gauss_fit lm xdata ydata withoffset trim guess_z = Inr popt \<and> length popt = 4"
proof -
  obtain amp x0 sigma_x offset
    where p0: "gauss_fit_p0 xdata ydata guess_z = Inr [amp, x0, sigma_x, offset]"
    using gauss_fit_p0_ok [OF ne len] by blast
  obtain xd yd
    where tr: "gauss_fit_trim xdata ydata trim [amp, x0, sigma_x, offset] = Inr (xd, yd)"
    using gauss_fit_trim_ok [OF len] by blast
  show ?thesis
    using profile_solver_okD [OF ok, where withoffset = withoffset and xdata = xd and ydata = yd
        and ?p0.0 = "[amp, x0, sigma_x, offset]"]
    by (cases "gauss_fit_solve lm withoffset xd yd [amp, x0, sigma_x, offset]")
       (auto simp: gauss_fit_def p0 tr)
qed

lemma np_interp_total:
  "xp \<noteq> [] \<Longrightarrow> length xp = length fp \<Longrightarrow> \<exists>v. np_interp x xp fp = Inr v"
  by (simp add: np_interp_def)

lemma psf_row_total:
  assumes ok: "profile_solver_ok lm" and t: "table_ok t"
  shows "\<exists>row. psf_row lm (None, None) withoffset trim guess_z t = Inr row"
proof -
  let ?temp = "df_loc (df_dropna t) (None, None)"
  let ?rows = "df_rows ?temp"
  let ?z = "map fst ?rows"
  have cols: "df_columns ?temp = df_columns t"
    by (simp add: df_loc_def df_dropna_def)
  have rows: "?rows = filter (\<lambda>(i, row). list_all (\<lambda>(k, v). \<not> isnan v) row) (df_rows t)"
    by (simp add: df_loc_def df_dropna_def)
  have ne: "?rows \<noteq> []"
    using t by (auto simp: table_ok_def rows list_ex_iff filter_empty_conv)
  have col: "df_column ?temp k = Inr (map (\<lambda>(i, row). cell row k) ?rows)"
    if "k \<in> set [''amp'', ''x0'', ''y0'', ''sigma_x'', ''sigma_y'']" for k
    using that t by (auto simp: df_column_def cols table_ok_def)
  let ?col = "\<lambda>k. map (\<lambda>(i, row). cell row k) ?rows"
  have cne: "?col k \<noteq> []" and clen: "length ?z = length (?col k)" for k
    using ne by simp_all
  obtain popt where gf: "gauss_fit lm ?z (?col ''amp'') withoffset trim guess_z = Inr popt"
    and lp: "length popt = 4"
    using gauss_fit_total [OF ok cne clen] by blast
  have zne: "?z \<noteq> []"
    using ne by simp
  obtain x0 where ix: "np_interp (popt ! 1) ?z (?col ''x0'') = Inr x0"
    using np_interp_total [OF zne clen] by blast
  obtain y0 where iy: "np_interp (popt ! 1) ?z (?col ''y0'') = Inr y0"
    using np_interp_total [OF zne clen] by blast
  obtain sx where isx: "np_interp (popt ! 1) ?z (?col ''sigma_x'') = Inr sx"
    using np_interp_total [OF zne clen] by blast
  obtain sy where isy: "np_interp (popt ! 1) ?z (?col ''sigma_y'') = Inr sy"
    using np_interp_total [OF zne clen] by blast
  have c: "df_column ?temp ''amp'' = Inr (?col ''amp'')"
    "df_column ?temp ''x0'' = Inr (?col ''x0'')"
    "df_column ?temp ''y0'' = Inr (?col ''y0'')"
    "df_column ?temp ''sigma_x'' = Inr (?col ''sigma_x'')"
    "df_column ?temp ''sigma_y'' = Inr (?col ''sigma_y'')"
    by (simp_all add: col)
  show ?thesis
    unfolding psf_row_def Let_def
    by (simp only: c sum.case gf lp simp_thms if_False ix iy isx isy) blast
qed

lemma fitPeaks_total:
  assumes ok: "window_solver_ok lm" and sh: "shape st = (zmax, ymax, xmax)"
    and wd: "1 \<le> fitwidth" and z: "0 < zmax"
    and pw: "list_all (\<lambda>b. proper_window st (blob_y b) (blob_x b) fitwidth) blobs"
  shows "\<exists>fits. fitPeaks lm st fitwidth None ''full'' blobs = Inr fits
           \<and> length fits \<le> length blobs \<and> list_all table_ok fits"
  using pw
proof (induction blobs)
  case Nil
  then show ?case by simp
next
  case (Cons b blobs)
  from Cons.prems have pb: "proper_window st (blob_y b) (blob_x b) fitwidth"
    and pbs: "list_all (\<lambda>b. proper_window st (blob_y b) (blob_x b) fitwidth) blobs"
    by simp_all
  obtain r where r: "fitPeaks_blob lm st fitwidth None ''full'' b = Inr r"
    and rt: "\<forall>t. r = Some t \<longrightarrow> table_ok t"
    using fitPeaks_blob_total [OF ok sh wd z pb] by blast
  obtain fits where f: "fitPeaks lm st fitwidth None ''full'' blobs = Inr fits"
    and fl: "length fits \<le> length blobs" and ft: "list_all table_ok fits"
    using Cons.IH [OF pbs] by blast
  show ?case
    using rt fl ft by (cases r) (simp_all add: r f)
qed

lemma calc_psf_params_total:
  assumes ok: "profile_solver_ok lm" and t: "list_all table_ok fits"
  shows "\<exists>psf_params. calc_psf_params lm fits (None, None) withoffset trim guess_z
                         = Inr psf_params \<and> length psf_params = length fits"
  using t
proof (induction fits)
  case Nil
  then show ?case by simp
next
  case (Cons fit fits)
  from Cons.prems have tf: "table_ok fit" and tfs: "list_all table_ok fits"
    by simp_all
  obtain row where row: "psf_row lm (None, None) withoffset trim guess_z fit = Inr row"
    using psf_row_total [OF ok tf] by blast
  obtain rest
    where rest: "calc_psf_params lm fits (None, None) withoffset trim guess_z = Inr rest"
      and rl: "length rest = length fits"
    using Cons.IH [OF tfs] by blast
  show ?case
    by (simp add: row rest rl)
qed

text \<open>
  Let the solver fail only in the ways the code catches: on a window it raises
  OptimizeWarning, ValueError or RuntimeError, or returns as many parameters as the guess
  has with a centre inside the window; on a z-profile it raises RuntimeError or returns
  four values. Let the stack have at least one slice, the width be at least 1 and the
  window of every blob have at least one row and one column. Then fitPeaks with its
  default keywords returns a list of tables that is no longer than the list of blobs, and
  calc_psf_params after it returns one summary row per table.
\<close>

lemma pipeline_completes:
  assumes "window_solver_ok lm" and "profile_solver_ok lm"
    and "shape st = (zmax, ymax, xmax)" and "0 < zmax" and "1 \<le> fitwidth"
    and "list_all (\<lambda>b. proper_window st (blob_y b) (blob_x b) fitwidth) blobs"
  shows "\<exists>fits psf_params.
           fitPeaks lm st fitwidth None ''full'' blobs = Inr fits
         \<and> pipeline lm st fitwidth None ''full'' blobs (None, None) withoffset trim guess_z
             = Inr psf_params
         \<and> length psf_params = length fits \<and> length fits \<le> length blobs"
proof -
  obtain fits where f: "fitPeaks lm st fitwidth None ''full'' blobs = Inr fits"
    and fl: "length fits \<le> length blobs" and ft: "list_all table_ok fits"
    using fitPeaks_total [OF assms(1,3,5,4,6)] by blast
  obtain psf_params
    where c: "calc_psf_params lm fits (None, None) withoffset trim guess_z = Inr psf_params"
      and cl: "length psf_params = length fits"
    using calc_psf_params_total [OF assms(2) ft] by blast
  show ?thesis
    using fl cl by (simp add: pipeline_def f c)
qed


text \<open>A solver that meets both conditions, and the lemma on a stack with two blobs.\<close>

lemma window_solver_ok_steady_lm: "window_solver_ok steady_lm"
  unfolding window_solver_ok_def
proof (intro allI)
  fix d gp
  show "case fit_window steady_lm d gp of
          Inl e \<Rightarrow> e = OptimizeWarning \<or> e = ValueError \<or> e = RuntimeError
        | Inr popt \<Rightarrow> length popt = length gp \<and> centre_inside d popt"
  proof (cases "length gp = 5 \<or> length gp = 6 \<or> length gp = 7")
    case True
    show ?thesis
    proof (cases "ravel d = []")
      case empty: True
      then show ?thesis
        by (simp add: fit_window_lm [OF True] steady_lm_def warnings_as_errors_def)
    next
      case False
      then have "length (ravel d) \<noteq> 0"
        by simp
      then have "0 < nrows d * ncols d"
        unfolding length_ravel by simp
      then have "1 \<le> nrows d" "1 \<le> ncols d"
        by simp_all
      then have "centre_inside d (gp[1 := Fin 0, 2 := Fin 0])"
        unfolding centre_inside_def using True by (intro exI [of _ 0]) auto
      then show ?thesis
        using False by (simp add: fit_window_lm [OF True] steady_lm_def warnings_as_errors_def)
    qed
  next
    case False
    then show ?thesis
      by (simp add: fit_window_bad_count)
  qed
qed

lemma profile_solver_ok_steady_lm: "profile_solver_ok steady_lm"
  unfolding profile_solver_ok_def
  by (auto simp: gauss_fit_solve_def curve_fit_def gauss_def gauss_no_offset_def steady_lm_def
      warnings_ignored_def np_insert_def split: sum.splits)

lemma pipeline_completes_small_stack:
  "window_solver_ok steady_lm \<and> profile_solver_ok steady_lm
   \<and> shape small_stack = (2, 6, 6)
   \<and> list_all (\<lambda>b. proper_window small_stack (blob_y b) (blob_x b) 4) [corner_blob, middle_blob]
   \<and> (\<exists>fits psf_params.
         fitPeaks steady_lm small_stack 4 None ''full'' [corner_blob, middle_blob] = Inr fits
       \<and> pipeline steady_lm small_stack 4 None ''full'' [corner_blob, middle_blob]
            (None, None) True None None = Inr psf_params
       \<and> length psf_params = length fits
       \<and> length fits \<le> length [corner_blob, middle_blob])"
proof -
  have sh: "shape small_stack = (2, 6, 6)"
    by (simp add: small_stack_def)
  have pw: "list_all (\<lambda>b. proper_window small_stack (blob_y b) (blob_x b) 4)
              [corner_blob, middle_blob]"
    by (simp add: proper_window_def sliceMaker_start sliceMaker_stop [OF sh] corner_blob_def
        middle_blob_def)
  from pipeline_completes [OF window_solver_ok_steady_lm profile_solver_ok_steady_lm sh _ _ pw,
      of True None None]
  show ?thesis
    using window_solver_ok_steady_lm profile_solver_ok_steady_lm sh pw by simp
qed

text \<open>
  A seed fit that is not finite excludes its blob and nothing else: the loop of fitPeaks
  goes on with the next blob. A solver that returns not-a-number without raising gives
  such a seed for every blob.
\<close>

lemma fitPeaks_skips_unfittable:
  "fitPeaks_blob lm st fitwidth kw_guess kw_modeltype b = Inr None \<Longrightarrow>
   fitPeaks lm st fitwidth kw_guess kw_modeltype (b # blobs)
     = fitPeaks lm st fitwidth kw_guess kw_modeltype blobs"
  by (simp split: sum.splits)

lemma fitPeaks_blob_nan_seed:
  assumes sh: "shape st = (zmax, ymax, xmax)" and z: "0 < zmax"
    and pw: "proper_window st (blob_y b) (blob_x b) fitwidth"
  shows "fitPeaks_blob nan_lm st fitwidth None ''full'' b = Inr None"
proof -
  let ?ms = "sliceMaker st (blob_y b) (blob_x b) fitwidth"
  let ?sums = "map (\<lambda>z. fsum (ravel (window_at st z ?ms))) [0..<zmax]"
  obtain my_max where am: "np_argmax ?sums = Inr my_max"
    using np_argmax_ok [of ?sums] z by auto
  let ?w = "window_at st my_max ?ms"
  note dims = proper_window_dims [OF sh pw, of my_max]
  have dg: "data (Gauss2D ?w) = ?w"
    by (simp add: Gauss2D_def)
  obtain gp self1 where sp: "start_params (Gauss2D ?w) None ''full'' = Inr (gp, self1)"
    using start_params_cold_ok [of "Gauss2D ?w" "''full''"] dims by (auto simp: dg)
  have lg: "length gp = 7"
    using start_params_cold_length(3) [OF sp] by (simp add: lower_full)
  have d1: "data self1 = ?w"
    using start_params_data [OF sp] by (simp add: dg)
  have fw: "fit_window nan_lm ?w gp = Inr (replicate 7 NaN)"
    by (simp add: fit_window_lm lg nan_lm_def warnings_as_errors_def)
  have "replicate 7 NaN = [NaN, NaN, NaN, NaN, NaN, NaN, NaN]"
    by (simp add: numeral_eq_Suc)
  then have v: "validate ?w gp (Inr (replicate 7 NaN)) = Inr (replicate 7 NaN, False)"
    by (simp add: validate_def)
  have fit: "optimize_params_ls nan_lm (Gauss2D ?w) None ''full''
               = Inr (replicate 7 NaN, set_error False (self1\<lparr>opt_params := Some (replicate 7 NaN)\<rparr>))"
    by (simp add: optimize_params_ls_def sp d1 fw v)
  have nf: "\<not> list_all isfinite (replicate 7 NaN)"
    by (simp add: numeral_eq_Suc)
  show ?thesis
    unfolding fitPeaks_blob_def opt_params_attr_def Let_def
    by (simp add: sh am fit nf)
qed

end
